theory Spec2Isabelle
  imports Complex_Main
begin

section \<open>Ausbildungsnachweis converter: embedding of \<open>ausbildungsnachweis_converter.py\<close>\<close>

text \<open>
  The Python class \<open>AusbildungsnachweisConverter\<close> is modelled function by function.
  Strings are ASCII character lists. Exceptions are values of \<open>py_error\<close>; a function
  that can raise returns \<open>py_error + 'a\<close>. The closure \<open>flush_day\<close> with its
  \<open>nonlocal\<close> variables becomes a function on an explicit state record.
\<close>

subsection \<open>Python values\<close>

datatype py_error = ValueError | IndexError | TypeError | OverflowError

text \<open>A Python \<open>float\<close>: a finite value (kept exact), an infinity or a NaN.\<close>

datatype pyfloat = Finite rat | PosInf | NegInf | FloatNaN

text \<open>
  The fields of a \<open>datetime\<close> that the converter reads: \<open>strftime('%d.%m.%Y')\<close>,
  \<open>.year\<close>, \<open>isocalendar()\<close> and comparison of two midnights use the date only.
\<close>

record datetime =
  dt_year :: int
  dt_month :: int
  dt_day :: int

text \<open>
  A cell of the DataFrame read with \<open>header=None\<close>. \<open>NaN\<close> stands for every value
  with \<open>pd.isna(v)\<close> (\<open>None\<close>, \<open>nan\<close>, \<open>NaT\<close>); the code tests such a value with
  \<open>pd.isna\<close>/\<open>pd.notna\<close> before any other use.
\<close>

datatype cell =
    NaN
  | Str string
  | Timestamp datetime
  | IntCell int
  | FloatCell rat
  | BoolCell bool

type_synonym dataframe = "cell list list"

text \<open>
  The two conversions of Python's library that depend on binary floating point are
  parameters of the model: \<open>float(s)\<close> on a \<open>str\<close> (\<open>None\<close> is its
  \<open>ValueError\<close>) and \<open>str(x)\<close> on a \<open>float\<close>.
\<close>

record pylib =
  float_of_str :: "string \<Rightarrow> pyfloat option"
  str_of_float :: "rat \<Rightarrow> string"

subsection \<open>Strings\<close>

definition newline :: char where
  "newline = CHR 0x0A"

text \<open>\<open>str.isspace\<close> on an ASCII character.\<close>

definition is_space :: "char \<Rightarrow> bool" where
  "is_space c = (c \<in> set [CHR 0x09, CHR 0x0A, CHR 0x0B, CHR 0x0C, CHR 0x0D,
                            CHR 0x1C, CHR 0x1D, CHR 0x1E, CHR 0x1F, CHR 0x20])"

definition is_digit :: "char \<Rightarrow> bool" where
  "is_digit c = (c \<in> set ''0123456789'')"

definition digit_val :: "char \<Rightarrow> int" where
  "digit_val c =
     (if is_digit c then int (length (takeWhile (\<lambda>d. d \<noteq> c) ''0123456789'')) else 0)"

definition digit_char :: "nat \<Rightarrow> char" where
  "digit_char n = ''0123456789'' ! (n mod 10)"

text \<open>\<open>str(n)\<close> for an \<open>int\<close>.\<close>

fun str_nat :: "nat \<Rightarrow> string" where
  "str_nat n = (if n < 10 then [digit_char n] else str_nat (n div 10) @ [digit_char n])"

declare str_nat.simps [simp del]

definition str_int :: "int \<Rightarrow> string" where
  "str_int i = (if i < 0 then CHR ''-'' # str_nat (nat (- i)) else str_nat (nat i))"

text \<open>\<open>f"{n:02d}"\<close> and the zero padding of \<open>strftime\<close>, for a number that is not negative.\<close>

definition zfill :: "nat \<Rightarrow> string \<Rightarrow> string" where
  "zfill w s = replicate (w - length s) CHR ''0'' @ s"

text \<open>\<open>s.strip()\<close>, \<open>s.rstrip('.')\<close>, \<open>s.replace('-', '.')\<close>.\<close>

definition py_strip :: "string \<Rightarrow> string" where
  "py_strip s = rev (dropWhile is_space (rev (dropWhile is_space s)))"

definition rstrip_dot :: "string \<Rightarrow> string" where
  "rstrip_dot s = rev (dropWhile (\<lambda>c. c = CHR ''.'') (rev s))"

definition replace_dash :: "string \<Rightarrow> string" where
  "replace_dash s = map (\<lambda>c. if c = CHR ''-'' then CHR ''.'' else c) s"

text \<open>\<open>s.split()\<close>: the maximal runs of characters that are not whitespace.\<close>

fun split_ws :: "string \<Rightarrow> string \<Rightarrow> string list" where
  "split_ws w [] = (if w = [] then [] else [w])"
| "split_ws w (c # cs) =
     (if is_space c then (if w = [] then split_ws [] cs else w # split_ws [] cs)
      else split_ws (w @ [c]) cs)"

definition py_split :: "string \<Rightarrow> string list" where
  "py_split s = split_ws [] s"

text \<open>\<open>sep.join(xs)\<close>.\<close>

fun py_join :: "string \<Rightarrow> string list \<Rightarrow> string" where
  "py_join sep [] = []"
| "py_join sep [x] = x"
| "py_join sep (x # y # ys) = x @ sep @ py_join sep (y # ys)"

text \<open>\<open>s.split('.')\<close>: always at least one part.\<close>

fun split_on :: "char \<Rightarrow> string \<Rightarrow> string list" where
  "split_on c [] = [[]]"
| "split_on c (x # xs) =
     (if x = c then [] # split_on c xs
      else (case split_on c xs of [] \<Rightarrow> [[x]] | p # ps \<Rightarrow> (x # p) # ps))"

text \<open>\<open>needle in s\<close> for strings.\<close>

fun starts_with :: "string \<Rightarrow> string \<Rightarrow> bool" where
  "starts_with [] s = True"
| "starts_with (p # ps) [] = False"
| "starts_with (p # ps) (c # cs) = (p = c \<and> starts_with ps cs)"

fun contains :: "string \<Rightarrow> string \<Rightarrow> bool" where
  "contains needle [] = (needle = [])"
| "contains needle (c # cs) = (starts_with needle (c # cs) \<or> contains needle cs)"

subsection \<open>Conversions of a cell\<close>

definition isna :: "cell \<Rightarrow> bool" where
  "isna c = (c = NaN)"

definition notna :: "cell \<Rightarrow> bool" where
  "notna c = (\<not> isna c)"

text \<open>
  \<open>x.strftime('%d.%m.%Y')\<close> and \<open>x.strftime('%d.%m')\<close>. The year is printed with at
  least four digits; a C library that prints a year below 1000 without padding differs
  there, and such a year can only come from a default year like "0999".
\<close>

definition strftime_dm :: "datetime \<Rightarrow> string" where
  "strftime_dm x = zfill 2 (str_int (dt_day x)) @ ''.'' @ zfill 2 (str_int (dt_month x))"

definition strftime_dmY :: "datetime \<Rightarrow> string" where
  "strftime_dmY x = strftime_dm x @ ''.'' @ zfill 4 (str_int (dt_year x))"

text \<open>\<open>str(v)\<close> of a cell value; a timestamp prints as a midnight.\<close>

definition py_str :: "pylib \<Rightarrow> cell \<Rightarrow> string" where
  "py_str py c =
     (case c of
        NaN \<Rightarrow> ''nan''
      | Str s \<Rightarrow> s
      | Timestamp x \<Rightarrow>
          zfill 4 (str_int (dt_year x)) @ ''-'' @ zfill 2 (str_int (dt_month x)) @ ''-''
            @ zfill 2 (str_int (dt_day x)) @ '' 00:00:00''
      | IntCell n \<Rightarrow> str_int n
      | FloatCell x \<Rightarrow> str_of_float py x
      | BoolCell b \<Rightarrow> (if b then ''True'' else ''False''))"

text \<open>\<open>int(x)\<close> of a \<open>float\<close> truncates towards zero and raises on an infinity or a NaN.\<close>

definition trunc_rat :: "rat \<Rightarrow> int" where
  "trunc_rat x = (if 0 \<le> x then \<lfloor>x\<rfloor> else \<lceil>x\<rceil>)"

definition int_of_float :: "pyfloat \<Rightarrow> py_error + int" where
  "int_of_float f =
     (case f of
        Finite x \<Rightarrow> Inr (trunc_rat x)
      | PosInf \<Rightarrow> Inl OverflowError
      | NegInf \<Rightarrow> Inl OverflowError
      | FloatNaN \<Rightarrow> Inl ValueError)"

text \<open>
  \<open>float(n)\<close> of an \<open>int\<close>: exact below \<open>2^53\<close>; above, the nearest double (53
  significant bits, a tie goes to the even one); \<open>OverflowError\<close> when the rounded
  value does not fit a double. The result is the value of the double.
\<close>

fun bit_length :: "nat \<Rightarrow> nat" where
  "bit_length n = (if n = 0 then 0 else Suc (bit_length (n div 2)))"

declare bit_length.simps [simp del]

definition float_of_nat :: "nat \<Rightarrow> nat" where
  "float_of_nat m =
     (if m < 2 ^ 53 then m
      else
        (let s = bit_length m - 53;
             q = m div 2 ^ s;
             r = m mod 2 ^ s;
             h = 2 ^ (s - 1)
         in (if h < r \<or> (r = h \<and> odd q) then q + 1 else q) * 2 ^ s))"

definition float_of_int :: "int \<Rightarrow> py_error + rat" where
  "float_of_int n =
     (let m = nat \<bar>n\<bar>
      in if 2 ^ 1024 \<le> m then Inl OverflowError
         else if 2 ^ 1024 \<le> float_of_nat m then Inl OverflowError
         else Inr (of_int (sgn n * int (float_of_nat m))))"

text \<open>\<open>float(v)\<close> of a cell value.\<close>

definition py_float :: "pylib \<Rightarrow> cell \<Rightarrow> py_error + pyfloat" where
  "py_float py c =
     (case c of
        NaN \<Rightarrow> Inr FloatNaN
      | Str s \<Rightarrow> (case float_of_str py s of None \<Rightarrow> Inl ValueError | Some f \<Rightarrow> Inr f)
      | Timestamp x \<Rightarrow> Inl TypeError
      | IntCell n \<Rightarrow> (case float_of_int n of Inl e \<Rightarrow> Inl e | Inr x \<Rightarrow> Inr (Finite x))
      | FloatCell x \<Rightarrow> Inr (Finite x)
      | BoolCell b \<Rightarrow> Inr (Finite (if b then 1 else 0)))"

subsection \<open>\<open>clean_text\<close>\<close>

definition clean_text :: "pylib \<Rightarrow> cell \<Rightarrow> string" where
  "clean_text py text =
     (if isna text then []
      else py_join '' '' (py_split (py_strip (py_str py text))))"

subsection \<open>The day aggregator: \<open>flush_day\<close> and the row loop\<close>

text \<open>The \<open>nonlocal\<close> variables of \<open>flush_day\<close> and the list \<open>md_lines\<close> it appends to.\<close>

record conv_state =
  current_date :: "datetime option"
  daily_activities :: "string list"
  pending_hours :: "pyfloat option"
  md_lines :: "string list"

text \<open>The two lines added for \<open>pending_hours\<close>, when it is not \<open>None\<close>.\<close>

definition hours_lines :: "pyfloat option \<Rightarrow> py_error + string list" where
  "hours_lines ph =
     (case ph of
        None \<Rightarrow> Inr []
      | Some h \<Rightarrow>
          (case int_of_float h of
             Inl e \<Rightarrow> Inl e
           | Inr n \<Rightarrow> Inr [[], ''**Stunden:** '' @ str_int n]))"

definition flush_day :: "conv_state \<Rightarrow> py_error + conv_state" where
  "flush_day st =
     (case current_date st of
        None \<Rightarrow> Inr st
      | Some d \<Rightarrow>
          if daily_activities st = [] then Inr st
          else
            (case hours_lines (pending_hours st) of
               Inl e \<Rightarrow> Inl e
             | Inr hl \<Rightarrow>
                 Inr (st\<lparr>md_lines :=
                        md_lines st @ [''## '' @ strftime_dmY d, []]
                          @ map (\<lambda>activity. ''- '' @ activity) (daily_activities st)
                          @ hl @ [[]]\<rparr>)))"

text \<open>\<open>row[j] if len(row) > j else None\<close>.\<close>

definition row_cell :: "cell list \<Rightarrow> nat \<Rightarrow> cell" where
  "row_cell row j = (if length row > j then row ! j else NaN)"

text \<open>The body of the loop over the data rows (lines 147 to 173).\<close>

definition process_row :: "pylib \<Rightarrow> conv_state \<Rightarrow> cell list \<Rightarrow> py_error + conv_state" where
  "process_row py st row =
     (let date_cell = row_cell row 1;
          activity_cell = row_cell row 2;
          hours_cell = row_cell row 11
      in case date_cell of
           Timestamp d \<Rightarrow>
             (case flush_day st of
                Inl e \<Rightarrow> Inl e
              | Inr st1 \<Rightarrow>
                  Inr (st1\<lparr>current_date := Some d, daily_activities := [],
                            pending_hours := None\<rparr>))
         | _ \<Rightarrow>
             (let activity_text = clean_text py activity_cell;
                  st1 = (if notna activity_cell \<and> activity_text \<noteq> []
                         then st\<lparr>daily_activities := daily_activities st @ [activity_text]\<rparr>
                         else st)
              in if notna hours_cell \<and> current_date st1 \<noteq> None then
                   (let st2 = st1\<lparr>pending_hours :=
                                (case py_float py hours_cell of
                                   Inl e \<Rightarrow> None
                                 | Inr f \<Rightarrow> Some f)\<rparr>
                    in case flush_day st2 of
                         Inl e \<Rightarrow> Inl e
                       | Inr st3 \<Rightarrow>
                           Inr (st3\<lparr>current_date := None, daily_activities := [],
                                     pending_hours := None\<rparr>))
                 else Inr st1))"

fun process_rows :: "pylib \<Rightarrow> conv_state \<Rightarrow> cell list list \<Rightarrow> py_error + conv_state" where
  "process_rows py st [] = Inr st"
| "process_rows py st (row # rows) =
     (case process_row py st row of
        Inl e \<Rightarrow> Inl e
      | Inr st1 \<Rightarrow> process_rows py st1 rows)"

text \<open>
  Lines 122 to 175: the three variables start empty, the rows from \<open>data_start_row\<close> on
  are processed, and the last open day is flushed. The result is \<open>md_lines\<close>.
\<close>

definition aggregate :: "pylib \<Rightarrow> string list \<Rightarrow> cell list list \<Rightarrow> py_error + string list" where
  "aggregate py lines0 rows =
     (case process_rows py
             \<lparr>current_date = None, daily_activities = [], pending_hours = None,
              md_lines = lines0\<rparr> rows of
        Inl e \<Rightarrow> Inl e
      | Inr st \<Rightarrow> (case flush_day st of Inl e \<Rightarrow> Inl e | Inr st1 \<Rightarrow> Inr (md_lines st1)))"

subsection \<open>\<open>parse_dates_from_filename\<close>\<close>

text \<open>
  \<open>Path(filename).stem\<close> for a file name without directory part: the name up to its
  last dot, when that dot is neither the first nor the last character.
\<close>

definition rfind_dot :: "string \<Rightarrow> int" where
  "rfind_dot s =
     (if CHR ''.'' \<in> set s
      then int (length s) - 1 - int (length (takeWhile (\<lambda>c. c \<noteq> CHR ''.'') (rev s)))
      else - 1)"

definition stem :: "string \<Rightarrow> string" where
  "stem name =
     (let i = rfind_dot name
      in if 0 < i \<and> i < int (length name) - 1 then take (nat i) name else name)"

text \<open>
  The regular expression of line 31,
  \<^verbatim>\<open>_(\d{2}\.\d{2}\.?)(?:\.\d{2})?\s*[-]\s*(\d{2}[.\-]\d{2}\.?)(?:\.\d{2})?\<close>,
  as a backtracking matcher: each piece returns the ways it can match a prefix of the
  text, the preferred (greedy) way first, and the first complete way is the match.
\<close>

definition lit :: "char \<Rightarrow> string \<Rightarrow> string list" where
  "lit c s = (case s of [] \<Rightarrow> [] | x # r \<Rightarrow> if x = c then [r] else [])"

text \<open>\<^verbatim>\<open>\d{2}[seps]\d{2}\<close>: the matched text and the rest.\<close>

definition re_dd_sep_dd :: "string \<Rightarrow> string \<Rightarrow> (string \<times> string) list" where
  "re_dd_sep_dd seps s =
     (case s of
        a # b # c # d # e # r \<Rightarrow>
          if is_digit a \<and> is_digit b \<and> c \<in> set seps \<and> is_digit d \<and> is_digit e
          then [([a, b, c, d, e], r)] else []
      | _ \<Rightarrow> [])"

text \<open>\<^verbatim>\<open>\.?\<close>: the dot if there is one, else nothing.\<close>

definition re_opt_dot :: "string \<Rightarrow> (string \<times> string) list" where
  "re_opt_dot s =
     (case s of
        [] \<Rightarrow> [([], [])]
      | x # r \<Rightarrow> if x = CHR ''.'' then [([x], r), ([], s)] else [([], s)])"

text \<open>\<^verbatim>\<open>(?:\.\d{2})?\<close>: the rest after it.\<close>

definition re_opt_dot_dd :: "string \<Rightarrow> string list" where
  "re_opt_dot_dd s =
     (case s of
        x # a # b # r \<Rightarrow>
          if x = CHR ''.'' \<and> is_digit a \<and> is_digit b then [r, s] else [s]
      | _ \<Rightarrow> [s])"

text \<open>
  \<^verbatim>\<open>\s*\<close> before a piece that cannot start with whitespace (the dash, a digit): only
  the longest run of whitespace can lead to a match.
\<close>

definition re_ws :: "string \<Rightarrow> string" where
  "re_ws s = dropWhile is_space s"

text \<open>All matches of the expression at the start of the text, as (group 1, group 2).\<close>

definition re_match_here :: "string \<Rightarrow> (string \<times> string) list" where
  "re_match_here s =
     concat (map (\<lambda>r0.
     concat (map (\<lambda>(g1, r1).
     concat (map (\<lambda>(d1, r2).
     concat (map (\<lambda>r3.
     concat (map (\<lambda>r4.
     concat (map (\<lambda>(g2, r5).
     concat (map (\<lambda>(d2, r6).
     map (\<lambda>r7. (g1 @ d1, g2 @ d2))
       (re_opt_dot_dd r6))
       (re_opt_dot r5)))
       (re_dd_sep_dd ''.-'' (re_ws r4))))
       (lit CHR ''-'' (re_ws r3))))
       (re_opt_dot_dd r2)))
       (re_opt_dot r1)))
       (re_dd_sep_dd ''.'' r0)))
       (lit CHR ''_'' s))"

text \<open>\<open>re.search\<close>: the match at the leftmost position that has one.\<close>

fun re_search :: "string \<Rightarrow> (string \<times> string) option" where
  "re_search [] = (case re_match_here [] of [] \<Rightarrow> None | m # ms \<Rightarrow> Some m)"
| "re_search (c # cs) =
     (case re_match_here (c # cs) of [] \<Rightarrow> re_search cs | m # ms \<Rightarrow> Some m)"

definition parse_dates_from_filename :: "string \<Rightarrow> (string \<times> string \<times> string) option" where
  "parse_dates_from_filename filename =
     (let base = stem filename
      in case re_search base of
           None \<Rightarrow> None
         | Some (g1, g2) \<Rightarrow> Some (rstrip_dot g1, rstrip_dot (replace_dash g2), base))"

subsection \<open>\<open>datetime.strptime\<close> and \<open>parse_date\<close>\<close>

definition is_leap :: "int \<Rightarrow> bool" where
  "is_leap y = (y mod 4 = 0 \<and> (y mod 100 \<noteq> 0 \<or> y mod 400 = 0))"

definition days_in_month :: "int \<Rightarrow> int \<Rightarrow> int" where
  "days_in_month y m =
     (if m = 2 then (if is_leap y then 29 else 28)
      else if m \<in> {4, 6, 9, 11} then 30 else 31)"

text \<open>The constructor \<open>datetime(year, month, day)\<close> with its range checks.\<close>

definition mk_datetime :: "int \<Rightarrow> int \<Rightarrow> int \<Rightarrow> py_error + datetime" where
  "mk_datetime y m d =
     (if 1 \<le> y \<and> y \<le> 9999 \<and> 1 \<le> m \<and> m \<le> 12 \<and> 1 \<le> d \<and> d \<le> days_in_month y m
      then Inr \<lparr>dt_year = y, dt_month = m, dt_day = d\<rparr>
      else Inl ValueError)"

text \<open>
  The directives as \<open>strptime\<close> compiles them, each alternative in its order:
  \<^verbatim>\<open>%d = 3[0-1]|[1-2]\d|0[1-9]|[1-9]| [1-9]\<close>, \<^verbatim>\<open>%m = 1[0-2]|0[1-9]|[1-9]\<close>,
  \<^verbatim>\<open>%y = \d\d\<close>, \<^verbatim>\<open>%Y = \d\d\d\d\<close>. Each returns the values it can read and the rest.
\<close>

definition is_digit19 :: "char \<Rightarrow> bool" where
  "is_digit19 c = (c \<in> set ''123456789'')"

definition re_d :: "string \<Rightarrow> (int \<times> string) list" where
  "re_d s =
     (case s of
        a # b # r \<Rightarrow>
          (if a = CHR ''3'' \<and> b \<in> set ''01'' then [(30 + digit_val b, r)] else [])
          @ (if a \<in> set ''12'' \<and> is_digit b then [(10 * digit_val a + digit_val b, r)] else [])
          @ (if a = CHR ''0'' \<and> is_digit19 b then [(digit_val b, r)] else [])
      | _ \<Rightarrow> [])
     @ (case s of a # r \<Rightarrow> if is_digit19 a then [(digit_val a, r)] else [] | _ \<Rightarrow> [])
     @ (case s of
          a # b # r \<Rightarrow> if a = CHR '' '' \<and> is_digit19 b then [(digit_val b, r)] else []
        | _ \<Rightarrow> [])"

definition re_m :: "string \<Rightarrow> (int \<times> string) list" where
  "re_m s =
     (case s of
        a # b # r \<Rightarrow>
          (if a = CHR ''1'' \<and> b \<in> set ''012'' then [(10 + digit_val b, r)] else [])
          @ (if a = CHR ''0'' \<and> is_digit19 b then [(digit_val b, r)] else [])
      | _ \<Rightarrow> [])
     @ (case s of a # r \<Rightarrow> if is_digit19 a then [(digit_val a, r)] else [] | _ \<Rightarrow> [])"

definition re_y :: "string \<Rightarrow> (int \<times> string) list" where
  "re_y s =
     (case s of
        a # b # r \<Rightarrow>
          if is_digit a \<and> is_digit b then [(10 * digit_val a + digit_val b, r)] else []
      | _ \<Rightarrow> [])"

definition re_Y :: "string \<Rightarrow> (int \<times> string) list" where
  "re_Y s =
     (case s of
        a # b # c # d # r \<Rightarrow>
          if is_digit a \<and> is_digit b \<and> is_digit c \<and> is_digit d
          then [(1000 * digit_val a + 100 * digit_val b + 10 * digit_val c + digit_val d, r)]
          else []
      | _ \<Rightarrow> [])"

text \<open>
  The matches of \<^verbatim>\<open>%d.%m.<year>\<close> at the start of the text, in the order of the
  backtracking search: day, month, year as read, and the text left over.
\<close>

definition re_d_m_year ::
  "(string \<Rightarrow> (int \<times> string) list) \<Rightarrow> string \<Rightarrow> (int \<times> int \<times> int \<times> string) list" where
  "re_d_m_year re_year s =
     concat (map (\<lambda>(d, r1).
     concat (map (\<lambda>r2.
     concat (map (\<lambda>(m, r3).
     concat (map (\<lambda>r4.
     map (\<lambda>(y, r5). (d, m, y, r5))
       (re_year r4))
       (lit CHR ''.'' r3)))
       (re_m r2)))
       (lit CHR ''.'' r1)))
       (re_d s))"

text \<open>\<open>%y\<close>: 69 to 99 are 1969 to 1999, 0 to 68 are 2000 to 2068.\<close>

definition pivot_year :: "int \<Rightarrow> int" where
  "pivot_year y = (if y \<le> 68 then 2000 + y else 1900 + y)"

text \<open>
  \<open>datetime.strptime(s, "%d.%m.%y")\<close> and \<open>datetime.strptime(s, "%d.%m.%Y")\<close>: the
  expression must match at the start, nothing may be left over, and the date must exist.
\<close>

definition strptime_dmy :: "string \<Rightarrow> py_error + datetime" where
  "strptime_dmy s =
     (case re_d_m_year re_y s of
        [] \<Rightarrow> Inl ValueError
      | (d, m, y, rest) # ms \<Rightarrow>
          if rest \<noteq> [] then Inl ValueError else mk_datetime (pivot_year y) m d)"

definition strptime_dmY :: "string \<Rightarrow> py_error + datetime" where
  "strptime_dmY s =
     (case re_d_m_year re_Y s of
        [] \<Rightarrow> Inl ValueError
      | (d, m, y, rest) # ms \<Rightarrow>
          if rest \<noteq> [] then Inl ValueError else mk_datetime y m d)"

definition parse_date :: "string \<Rightarrow> string \<Rightarrow> py_error + datetime" where
  "parse_date date_str default_year =
     (let parts = split_on CHR ''.'' date_str
      in if length parts = 3 then strptime_dmy date_str
         else if length parts = 2 then strptime_dmY (date_str @ ''.'' @ default_year)
         else Inl ValueError)"

subsection \<open>\<open>isocalendar\<close>\<close>

definition days_before_year :: "int \<Rightarrow> int" where
  "days_before_year y =
     (let y1 = y - 1 in y1 * 365 + y1 div 4 - y1 div 100 + y1 div 400)"

definition days_before_month :: "int \<Rightarrow> int \<Rightarrow> int" where
  "days_before_month y m =
     [0, 31, 59, 90, 120, 151, 181, 212, 243, 273, 304, 334] ! nat (m - 1)
       + (if m > 2 \<and> is_leap y then 1 else 0)"

definition ymd2ord :: "int \<Rightarrow> int \<Rightarrow> int \<Rightarrow> int" where
  "ymd2ord y m d = days_before_year y + days_before_month y m + d"

definition isoweek1monday :: "int \<Rightarrow> int" where
  "isoweek1monday y =
     (let firstday = ymd2ord y 1 1;
          firstweekday = (firstday + 6) mod 7;
          week1monday = firstday - firstweekday
      in if firstweekday > 3 then week1monday + 7 else week1monday)"

text \<open>\<open>x.isocalendar()\<close>: ISO year, ISO week, ISO weekday.\<close>

definition isocalendar :: "datetime \<Rightarrow> int \<times> int \<times> int" where
  "isocalendar x =
     (let y = dt_year x;
          week1monday = isoweek1monday y;
          today = ymd2ord (dt_year x) (dt_month x) (dt_day x);
          week = (today - week1monday) div 7;
          wday = (today - week1monday) mod 7
      in if week < 0 then
           (let week1monday' = isoweek1monday (y - 1)
            in (y - 1, (today - week1monday') div 7 + 1, (today - week1monday') mod 7 + 1))
         else if week \<ge> 52 \<and> today \<ge> isoweek1monday (y + 1) then (y + 1, 1, wday + 1)
         else (y, week + 1, wday + 1))"

subsection \<open>The DataFrame\<close>

text \<open>\<open>df.shape[1]\<close>, \<open>df.iloc[i, j]\<close> (an index out of bounds raises \<open>IndexError\<close>).\<close>

definition shape1 :: "dataframe \<Rightarrow> nat" where
  "shape1 df = (case df of [] \<Rightarrow> 0 | row # rows \<Rightarrow> length row)"

definition iloc :: "dataframe \<Rightarrow> nat \<Rightarrow> nat \<Rightarrow> py_error + cell" where
  "iloc df i j =
     (if i < length df \<and> j < length (df ! i) then Inr (df ! i ! j) else Inl IndexError)"

subsection \<open>\<open>int(v)\<close> of a cell and the year of the report\<close>

text \<open>
  \<open>int(s)\<close> on a \<open>str\<close>: surrounding whitespace (for an ASCII string the six
  characters of C's \<open>isspace\<close>, which is less than \<open>str.strip\<close> removes), an optional
  sign, decimal digits with single underscores between them, at most 4300 digits.
\<close>

definition is_c_space :: "char \<Rightarrow> bool" where
  "is_c_space c = (c \<in> set [CHR 0x09, CHR 0x0A, CHR 0x0B, CHR 0x0C, CHR 0x0D, CHR 0x20])"

definition c_strip :: "string \<Rightarrow> string" where
  "c_strip s = rev (dropWhile is_c_space (rev (dropWhile is_c_space s)))"

fun parse_digits :: "int \<Rightarrow> string \<Rightarrow> int option" where
  "parse_digits acc [] = Some acc"
| "parse_digits acc [c] = (if is_digit c then Some (10 * acc + digit_val c) else None)"
| "parse_digits acc (c # d # ds) =
     (if is_digit c then parse_digits (10 * acc + digit_val c) (d # ds)
      else if c = CHR ''_'' \<and> is_digit d then parse_digits (10 * acc + digit_val d) ds
      else None)"

definition int_of_str :: "string \<Rightarrow> int option" where
  "int_of_str s =
     (let t = c_strip s;
          neg = (case t of [] \<Rightarrow> False | c # r \<Rightarrow> c = CHR ''-'');
          body = (case t of [] \<Rightarrow> [] | c # r \<Rightarrow> if c = CHR ''-'' \<or> c = CHR ''+'' then r else t)
      in case body of
           [] \<Rightarrow> None
         | c # cs \<Rightarrow>
             if is_digit c \<and> length (filter is_digit body) \<le> 4300
             then map_option (\<lambda>n. if neg then - n else n) (parse_digits (digit_val c) cs)
             else None)"

definition py_int :: "cell \<Rightarrow> py_error + int" where
  "py_int c =
     (case c of
        NaN \<Rightarrow> Inl ValueError
      | Str s \<Rightarrow> (case int_of_str s of None \<Rightarrow> Inl ValueError | Some n \<Rightarrow> Inr n)
      | Timestamp x \<Rightarrow> Inl TypeError
      | IntCell n \<Rightarrow> Inr n
      | FloatCell x \<Rightarrow> Inr (trunc_rat x)
      | BoolCell b \<Rightarrow> Inr (if b then 1 else 0))"

text \<open>Lines 75 to 82: the year from the cell in row 2, column 11, or from the file name.\<close>

definition actual_year :: "string \<Rightarrow> string \<Rightarrow> dataframe \<Rightarrow> py_error + string" where
  "actual_year default_year filename df =
     (if shape1 df > 11 then
        (case iloc df 2 11 of
           Inl e \<Rightarrow> Inl e
         | Inr c \<Rightarrow>
             if \<not> isna c then
               (case py_int c of
                  Inr n \<Rightarrow> Inr (str_int n)
                | Inl e \<Rightarrow> Inr (if contains ''.24'' filename then ''2024'' else default_year))
             else if contains ''.24'' filename then Inr ''2024''
             else Inr default_year)
      else if contains ''.24'' filename then Inr ''2024''
      else Inr default_year)"

subsection \<open>Header cells and the first data row\<close>

text \<open>Lines 90 to 96: \<open>clean_text(df.iloc[i, 7])\<close>, or the fallback when it is empty.\<close>

definition header_text :: "pylib \<Rightarrow> dataframe \<Rightarrow> nat \<Rightarrow> string \<Rightarrow> py_error + string" where
  "header_text py df i fallback =
     (if shape1 df > 7 then
        (case iloc df i 7 of
           Inl e \<Rightarrow> Inl e
         | Inr c \<Rightarrow> Inr (if clean_text py c = [] then fallback else clean_text py c))
      else Inr fallback)"

text \<open>\<open>isinstance(cell, str) and "Tag" in cell\<close>.\<close>

definition is_tag_cell :: "cell \<Rightarrow> bool" where
  "is_tag_cell c = (case c of Str s \<Rightarrow> contains ''Tag'' s | _ \<Rightarrow> False)"

text \<open>Lines 101 to 109: the row after the first row whose column 1 holds "Tag", or 0.\<close>

fun find_tag_row :: "nat \<Rightarrow> nat \<Rightarrow> cell list list \<Rightarrow> nat option" where
  "find_tag_row ncols i [] = None"
| "find_tag_row ncols i (row # rows) =
     (if is_tag_cell (if ncols > 1 then row_cell row 1 else NaN) then Some (i + 1)
      else find_tag_row ncols (i + 1) rows)"

definition data_start_row :: "dataframe \<Rightarrow> nat" where
  "data_start_row df = (case find_tag_row (shape1 df) 0 df of None \<Rightarrow> 0 | Some i \<Rightarrow> i)"

subsection \<open>\<open>convert_excel_to_markdown\<close>\<close>

definition title_line :: "int \<Rightarrow> datetime \<Rightarrow> datetime \<Rightarrow> string" where
  "title_line iso_week start_dt end_dt =
     ''# KW'' @ zfill 2 (str_int iso_week) @ '' - Ausbildungsnachweis (''
       @ strftime_dmY start_dt @ '' - '' @ strftime_dmY end_dt @ '')''"

definition header_lines :: "int \<Rightarrow> datetime \<Rightarrow> datetime \<Rightarrow> string \<Rightarrow> string \<Rightarrow> string \<Rightarrow> string list" where
  "header_lines iso_week start_dt end_dt name course yr =
     [title_line iso_week start_dt end_dt,
      [],
      ''**Name:** '' @ name @ ''  '',
      ''**Ausbildung:** '' @ course @ ''  '',
      ''**Jahr:** '' @ yr @ ''  '',
      [],
      ''---'',
      []]"

definition out_filename :: "int \<Rightarrow> datetime \<Rightarrow> datetime \<Rightarrow> string" where
  "out_filename iso_week start_dt end_dt =
     str_int (dt_year start_dt) @ ''-KW'' @ zfill 2 (str_int iso_week)
       @ ''-Ausbildungsnachweis-'' @ strftime_dm start_dt @ ''-'' @ strftime_dm end_dt @ ''.md''"

text \<open>
  The argument \<open>filename\<close> is \<open>excel_path.name\<close>, \<open>df\<close> is what \<open>pd.read_excel\<close>
  returned for the file. The result is the pair (output file name, Markdown text).
\<close>

definition convert_excel_to_markdown ::
  "pylib \<Rightarrow> string \<Rightarrow> string \<Rightarrow> dataframe \<Rightarrow> py_error + (string \<times> string)" where
  "convert_excel_to_markdown py default_year filename df =
     (case parse_dates_from_filename filename of
        None \<Rightarrow> Inl ValueError
      | Some (start_raw, end_raw, base) \<Rightarrow>
     if start_raw = [] then Inl ValueError else
     (case actual_year default_year filename df of Inl e \<Rightarrow> Inl e | Inr yr \<Rightarrow>
     (case parse_date start_raw yr of Inl e \<Rightarrow> Inl e | Inr start_dt \<Rightarrow>
     (case parse_date end_raw yr of Inl e \<Rightarrow> Inl e | Inr end_dt \<Rightarrow>
     (case isocalendar start_dt of (iso_year, iso_week, iso_day) \<Rightarrow>
     (case header_text py df 0 ''Nicolay, Dimitrios'' of Inl e \<Rightarrow> Inl e | Inr name \<Rightarrow>
     (case header_text py df 1 ''Fachinformatiker SI - U27B (IHK)'' of
        Inl e \<Rightarrow> Inl e | Inr course \<Rightarrow>
     (case aggregate py (header_lines iso_week start_dt end_dt name course yr)
             (drop (data_start_row df) df) of
        Inl e \<Rightarrow> Inl e
      | Inr lines \<Rightarrow>
          Inr (out_filename iso_week start_dt end_dt,
               py_strip (py_join [newline] lines))))))))))"

subsection \<open>Notions used to state the properties\<close>

text \<open>A row whose date column (column 1) holds a date-typed cell.\<close>

definition is_date_row :: "cell list \<Rightarrow> bool" where
  "is_date_row row = (case row_cell row 1 of Timestamp d \<Rightarrow> True | _ \<Rightarrow> False)"

text \<open>The activity text of a row (column 2), empty when the row has none.\<close>

definition row_activity :: "pylib \<Rightarrow> cell list \<Rightarrow> string" where
  "row_activity py row = clean_text py (row_cell row 2)"

text \<open>
  The section that one emitted day adds to the document: its heading, its bullets and the
  lines \<open>hl\<close> for its hours.
\<close>

definition day_section :: "datetime \<Rightarrow> string list \<Rightarrow> string list \<Rightarrow> string list" where
  "day_section d activities hl =
     [''## '' @ strftime_dmY d, []] @ map (\<lambda>activity. ''- '' @ activity) activities @ hl @ [[]]"

definition stunden_lines :: "int \<Rightarrow> string list" where
  "stunden_lines n = [[], ''**Stunden:** '' @ str_int n]"

text \<open>The state in which no day is open, with the document written so far.\<close>

definition idle_state :: "string list \<Rightarrow> conv_state" where
  "idle_state lines =
     \<lparr>current_date = None, daily_activities = [], pending_hours = None, md_lines = lines\<rparr>"

definition is_finite :: "pyfloat \<Rightarrow> bool" where
  "is_finite f = (case f of Finite x \<Rightarrow> True | _ \<Rightarrow> False)"


definition plain_row :: "cell list \<Rightarrow> bool" where
  "plain_row row = (\<not> is_date_row row \<and> \<not> is_tag_cell (row_cell row 1))"

definition numeric_cell :: "cell \<Rightarrow> bool" where
  "numeric_cell c = (case c of IntCell n \<Rightarrow> True | FloatCell x \<Rightarrow> True | _ \<Rightarrow> False)"

text \<open>
  The hours that lines 166 to 169 and 141 make of a numeric cell: \<open>int(float(v))\<close>, or
  nothing when \<open>float(v)\<close> raises (an \<open>int\<close> beyond the range of a double).
\<close>

definition cell_hours :: "cell \<Rightarrow> int option" where
  "cell_hours c =
     (case c of
        IntCell n \<Rightarrow> (case float_of_int n of Inl e \<Rightarrow> None | Inr x \<Rightarrow> Some (trunc_rat x))
      | FloatCell x \<Rightarrow> Some (trunc_rat x)
      | _ \<Rightarrow> None)"





text \<open>A sample of the library parameters, for evaluating the model on concrete grids.\<close>

definition sample_py :: pylib where
  "sample_py =
     \<lparr>float_of_str =
        (\<lambda>s. if s = ''inf'' then Some PosInf
             else
               (case int_of_str s of
                  None \<Rightarrow> None
                | Some n \<Rightarrow>
                    (case float_of_int n of
                       Inl e \<Rightarrow> Some (if n < 0 then NegInf else PosInf)
                     | Inr x \<Rightarrow> Some (Finite x)))),
      str_of_float = (\<lambda>x. str_int (trunc_rat x) @ ''.0'')\<rparr>"

text \<open>
  The first step of a row without a date: its activity text, when there is one, is
  appended to \<open>daily_activities\<close> (lines 160 to 163).
\<close>

definition add_activity :: "pylib \<Rightarrow> conv_state \<Rightarrow> cell list \<Rightarrow> conv_state" where
  "add_activity py st row =
     (if row_activity py row \<noteq> []
      then st\<lparr>daily_activities := daily_activities st @ [row_activity py row]\<rparr> else st)"

text \<open>The rows processed from a given state, the final \<open>flush_day\<close>, and \<open>md_lines\<close>.\<close>

definition finish_from :: "pylib \<Rightarrow> conv_state \<Rightarrow> cell list list \<Rightarrow> py_error + string list" where
  "finish_from py st rows =
     (case process_rows py st rows of
        Inl e \<Rightarrow> Inl e
      | Inr st1 \<Rightarrow> (case flush_day st1 of Inl e \<Rightarrow> Inl e | Inr st2 \<Rightarrow> Inr (md_lines st2)))"

text \<open>
  A row of a grid with twelve columns, given by the cells of the four columns the
  converter reads (date column 1, activity column 2, header column 7, hours column 11),
  and a day of March 2025.
\<close>

definition row12 :: "cell \<Rightarrow> cell \<Rightarrow> cell \<Rightarrow> cell \<Rightarrow> cell list" where
  "row12 date_cell activity_cell header_cell hours_cell =
     [NaN, date_cell, activity_cell, NaN, NaN, NaN, NaN, header_cell, NaN, NaN, NaN, hours_cell]"

definition march :: "int \<Rightarrow> datetime" where
  "march d = \<lparr>dt_year = 2025, dt_month = 3, dt_day = d\<rparr>"

text \<open>Comparison of two \<open>datetime\<close> values, \<open>a <= b\<close>: by year, then month, then day.\<close>

definition dt_le :: "datetime \<Rightarrow> datetime \<Rightarrow> bool" where
  "dt_le a b =
     (dt_year a < dt_year b
      \<or> (dt_year a = dt_year b
          \<and> (dt_month a < dt_month b \<or> (dt_month a = dt_month b \<and> dt_day a \<le> dt_day b))))"

text \<open>
  The date range of a file: lines 67 to 69 and 84 to 85 of
  \<open>convert_excel_to_markdown\<close>, for the year \<open>yr\<close> that lines 75 to 82 resolved.
\<close>

definition date_range :: "string \<Rightarrow> string \<Rightarrow> py_error + (datetime \<times> datetime)" where
  "date_range filename yr =
     (case parse_dates_from_filename filename of
        None \<Rightarrow> Inl ValueError
      | Some (start_raw, end_raw, base) \<Rightarrow>
          if start_raw = [] then Inl ValueError
          else
            (case parse_date start_raw yr of
               Inl e \<Rightarrow> Inl e
             | Inr start_dt \<Rightarrow>
                 (case parse_date end_raw yr of
                    Inl e \<Rightarrow> Inl e
                  | Inr end_dt \<Rightarrow> Inr (start_dt, end_dt))))"

text \<open>
  A date token as \<open>parse_dates_from_filename\<close> returns it, \<open>DD.MM\<close>, and the numbers
  its digits stand for; the number that \<open>%Y\<close> reads from the year string.
\<close>

definition is_token :: "string \<Rightarrow> bool" where
  "is_token t =
     (case t of
        [a, b, c, d, e] \<Rightarrow>
          is_digit a \<and> is_digit b \<and> c = CHR ''.'' \<and> is_digit d \<and> is_digit e
      | _ \<Rightarrow> False)"

definition token_day :: "string \<Rightarrow> int" where
  "token_day t = (case t of a # b # r \<Rightarrow> 10 * digit_val a + digit_val b | _ \<Rightarrow> 0)"

definition token_month :: "string \<Rightarrow> int" where
  "token_month t =
     (case t of a # b # c # d # e # r \<Rightarrow> 10 * digit_val d + digit_val e | _ \<Rightarrow> 0)"

definition year_value :: "string \<Rightarrow> int" where
  "year_value yr = (case re_Y yr of [] \<Rightarrow> 0 | (y, r) # ms \<Rightarrow> y)"

section \<open>Properties of the day aggregator\<close>

subsection \<open>\<open>flush_day\<close> and one row\<close>

lemma flush_day_idle: "current_date st = None \<Longrightarrow> flush_day st = Inr st"
  by (simp add: flush_day_def)

lemma flush_day_no_activities: "daily_activities st = [] \<Longrightarrow> flush_day st = Inr st"
  by (simp add: flush_day_def split: option.splits)

lemma flush_day_emit:
  "current_date st = Some d \<Longrightarrow> daily_activities st \<noteq> [] \<Longrightarrow>
   hours_lines (pending_hours st) = Inr hl \<Longrightarrow>
   flush_day st = Inr (st\<lparr>md_lines := md_lines st @ day_section d (daily_activities st) hl\<rparr>)"
  by (simp add: flush_day_def day_section_def)

lemma flush_day_fields:
  "flush_day st = Inr st' \<Longrightarrow>
   current_date st' = current_date st \<and> daily_activities st' = daily_activities st
   \<and> pending_hours st' = pending_hours st"
  by (auto simp: flush_day_def split: option.splits if_splits sum.splits)

lemma process_row_date:
  "row_cell row 1 = Timestamp d \<Longrightarrow>
   process_row py st row =
     (case flush_day st of
        Inl e \<Rightarrow> Inl e
      | Inr st1 \<Rightarrow> Inr (st1\<lparr>current_date := Some d, daily_activities := [],
                           pending_hours := None\<rparr>))"
  by (simp add: process_row_def)

lemma clean_text_NaN: "clean_text py NaN = []"
  by (simp add: clean_text_def isna_def)

lemma process_row_plain:
  "\<not> is_date_row row \<Longrightarrow>
   process_row py st row =
     (let st1 = add_activity py st row
      in if notna (row_cell row 11) \<and> current_date st \<noteq> None then
           (case flush_day (st1\<lparr>pending_hours :=
                     (case py_float py (row_cell row 11) of Inl e \<Rightarrow> None | Inr f \<Rightarrow> Some f)\<rparr>) of
              Inl e \<Rightarrow> Inl e
            | Inr st3 \<Rightarrow> Inr (st3\<lparr>current_date := None, daily_activities := [],
                                 pending_hours := None\<rparr>))
         else Inr st1)"
  by (cases "row_cell row 1")
     (auto simp: process_row_def is_date_row_def add_activity_def row_activity_def Let_def
        notna_def isna_def clean_text_NaN)


lemma hours_lines_None: "hours_lines None = Inr []"
  by (simp add: hours_lines_def)

lemma hours_lines_Finite: "hours_lines (Some (Finite x)) = Inr (stunden_lines (trunc_rat x))"
  by (simp add: hours_lines_def int_of_float_def stunden_lines_def)

lemma hours_lines_ok: "is_finite f \<Longrightarrow> \<exists>hl. hours_lines (Some f) = Inr hl"
  by (cases f) (simp_all add: is_finite_def hours_lines_Finite)

lemma flush_day_ok:
  "(case pending_hours st of None \<Rightarrow> True | Some f \<Rightarrow> is_finite f) \<Longrightarrow> \<exists>st'. flush_day st = Inr st'"
  using hours_lines_ok [of "the (pending_hours st)"]
  by (auto simp: flush_day_def hours_lines_None split: option.splits)

text \<open>
  Claim C9. A row whose date column holds a date-typed cell is processed as a date
  transition only: the result is the same for every row with that date, whatever its
  activity and hours cells hold. After it the new day is open with no activity and no
  hours, and the document holds what the flush of the previous day added, nothing else.
\<close>
theorem date_row_only_date_transition:
  assumes "row_cell row 1 = Timestamp d"
  shows "(\<forall>row'. row_cell row' 1 = Timestamp d \<longrightarrow> process_row py st row' = process_row py st row)
       \<and> (\<forall>st'. process_row py st row = Inr st' \<longrightarrow>
             current_date st' = Some d \<and> daily_activities st' = [] \<and> pending_hours st' = None
             \<and> (\<exists>st1. flush_day st = Inr st1 \<and> md_lines st' = md_lines st1))
       \<and> (\<forall>e. process_row py st row = Inl e \<longrightarrow> flush_day st = Inl e)"
  using assms by (auto simp: process_row_date split: sum.splits)

lemma blank_rows_keep_empty:
  assumes "\<forall>r\<in>set rs. \<not> is_date_row r \<and> row_activity py r = []"
    and "daily_activities st = []"
  shows "\<exists>st'. process_rows py st rs = Inr st' \<and> md_lines st' = md_lines st
            \<and> daily_activities st' = []"
  using assms
proof (induction rs arbitrary: st)
  case Nil
  then show ?case by simp
next
  case (Cons r rs)
  then have r: "\<not> is_date_row r" "row_activity py r = []" by auto
  let ?st2 = "st\<lparr>pending_hours :=
      (case py_float py (row_cell r 11) of Inl e \<Rightarrow> None | Inr f \<Rightarrow> Some f)\<rparr>"
  have a: "add_activity py st r = st" using r by (simp add: add_activity_def)
  have f: "flush_day ?st2 = Inr ?st2"
    using Cons.prems(2) by (simp add: flush_day_no_activities)
  have "\<exists>st1. process_row py st r = Inr st1 \<and> md_lines st1 = md_lines st
          \<and> daily_activities st1 = []"
  proof (cases "notna (row_cell r 11) \<and> current_date st \<noteq> None")
    case True
    then show ?thesis
      using f Cons.prems(2) by (simp add: process_row_plain [OF r(1)] a Let_def)
  next
    case False
    then show ?thesis
      using Cons.prems(2) by (auto simp: process_row_plain [OF r(1)] a Let_def)
  qed
  then obtain st1 where st1: "process_row py st r = Inr st1" "md_lines st1 = md_lines st"
     "daily_activities st1 = []" by blast
  from Cons.IH [of st1] Cons.prems(1) st1 show ?case by auto
qed

text \<open>
  Claim C3. \<open>flush_day\<close> adds lines only when a date is set and the activity list is
  not empty; with an empty activity list it returns the state unchanged, whatever the
  pending hours. A day opened by a date row whose later rows (hours rows included) carry
  no non-empty activity text adds no line to the document, and neither does any later
  flush of it.
\<close>
theorem flush_emits_only_dated_nonempty_days:
  "(\<forall>st'. flush_day st = Inr st' \<longrightarrow> md_lines st' \<noteq> md_lines st \<longrightarrow>
        current_date st \<noteq> None \<and> daily_activities st \<noteq> [])
   \<and> (daily_activities st = [] \<longrightarrow> flush_day st = Inr st)
   \<and> (row_cell rd 1 = Timestamp d \<longrightarrow>
        (\<forall>r\<in>set rs. \<not> is_date_row r \<and> row_activity py r = []) \<longrightarrow>
        (\<forall>st1. flush_day st = Inr st1 \<longrightarrow>
           (\<exists>st'. process_rows py st (rd # rs) = Inr st' \<and> md_lines st' = md_lines st1
                 \<and> flush_day st' = Inr st')))"
proof -
  have a: "\<forall>st'. flush_day st = Inr st' \<longrightarrow> md_lines st' \<noteq> md_lines st \<longrightarrow>
        current_date st \<noteq> None \<and> daily_activities st \<noteq> []"
    by (auto simp: flush_day_def split: option.splits if_splits)
  have b: "daily_activities st = [] \<longrightarrow> flush_day st = Inr st"
    by (simp add: flush_day_no_activities)
  have c: "\<exists>st'. process_rows py st (rd # rs) = Inr st' \<and> md_lines st' = md_lines st1
                 \<and> flush_day st' = Inr st'"
    if d: "row_cell rd 1 = Timestamp d"
      and rs: "\<forall>r\<in>set rs. \<not> is_date_row r \<and> row_activity py r = []"
      and f: "flush_day st = Inr st1" for st1
  proof -
    let ?s = "st1\<lparr>current_date := Some d, daily_activities := [], pending_hours := None\<rparr>"
    have p: "process_row py st rd = Inr ?s" by (simp add: process_row_date [OF d] f)
    obtain st' where "process_rows py ?s rs = Inr st'" "md_lines st' = md_lines ?s"
        "daily_activities st' = []"
      using blank_rows_keep_empty [OF rs, of ?s] by auto
    then show ?thesis by (auto simp: p flush_day_no_activities)
  qed
  from a b c show ?thesis by blast
qed

text \<open>
  Claim C10. In a row without a date-typed cell that has a non-empty activity text and an
  hours cell, while a day is open, the activity is appended first: the section emitted by
  the flush of that row ends with this activity (or the row fails exactly when writing
  the hours fails).
\<close>
theorem activity_joins_day_before_hours_flush:
  assumes "\<not> is_date_row row" and "row_activity py row \<noteq> []" and "notna (row_cell row 11)"
    and "current_date st = Some d"
  shows "process_row py st row =
     (case hours_lines (case py_float py (row_cell row 11) of Inl e \<Rightarrow> None | Inr f \<Rightarrow> Some f) of
        Inl e \<Rightarrow> Inl e
      | Inr hl \<Rightarrow>
          Inr \<lparr>current_date = None, daily_activities = [], pending_hours = None,
               md_lines = md_lines st
                  @ day_section d (daily_activities st @ [row_activity py row]) hl\<rparr>)"
  using assms
  by (auto simp: process_row_plain add_activity_def flush_day_def day_section_def Let_def
       split: sum.splits)


subsection \<open>Rows while no day is open\<close>

lemma aggregate_finish_from: "aggregate py lines0 rows = finish_from py (idle_state lines0) rows"
  by (simp add: aggregate_def finish_from_def idle_state_def)

lemma process_rows_append:
  "process_rows py st (xs @ ys) =
     (case process_rows py st xs of Inl e \<Rightarrow> Inl e | Inr st1 \<Rightarrow> process_rows py st1 ys)"
  by (induction xs arbitrary: st) (auto split: sum.splits)

lemma process_row_idle_plain:
  "current_date st = None \<Longrightarrow> \<not> is_date_row r \<Longrightarrow>
   process_row py st r = Inr (add_activity py st r)"
  by (simp add: process_row_plain Let_def)

lemma add_activity_fields:
  "current_date (add_activity py st r) = current_date st"
  "md_lines (add_activity py st r) = md_lines st"
  "pending_hours (add_activity py st r) = pending_hours st"
  by (simp_all add: add_activity_def)

lemma process_row_idle_date:
  "current_date st = None \<Longrightarrow> row_cell r 1 = Timestamp d \<Longrightarrow>
   process_row py st r =
     Inr \<lparr>current_date = Some d, daily_activities = [], pending_hours = None,
          md_lines = md_lines st\<rparr>"
  by (simp add: process_row_date flush_day_idle)

lemma idle_rows_no_effect:
  "current_date st = None \<Longrightarrow> \<forall>r\<in>set pre. \<not> is_date_row r \<Longrightarrow>
   \<exists>st'. process_rows py st pre = Inr st' \<and> current_date st' = None
         \<and> md_lines st' = md_lines st"
proof (induction pre arbitrary: st)
  case Nil
  then show ?case by simp
next
  case (Cons r pre)
  have "process_row py st r = Inr (add_activity py st r)"
    using Cons.prems by (simp add: process_row_idle_plain)
  moreover obtain st' where "process_rows py (add_activity py st r) pre = Inr st'"
      "current_date st' = None" "md_lines st' = md_lines (add_activity py st r)"
    using Cons.IH [of "add_activity py st r"] Cons.prems by (auto simp: add_activity_fields)
  ultimately show ?case by (simp add: add_activity_fields)
qed

lemma idle_buffer_irrelevant:
  "current_date s1 = None \<Longrightarrow> current_date s2 = None \<Longrightarrow> md_lines s1 = md_lines s2 \<Longrightarrow>
   finish_from py s1 rows = finish_from py s2 rows"
proof (induction rows arbitrary: s1 s2)
  case Nil
  then show ?case by (simp add: finish_from_def flush_day_idle)
next
  case (Cons r rows)
  show ?case
  proof (cases "row_cell r 1")
    case (Timestamp d)
    then show ?thesis
      using Cons.prems by (simp add: finish_from_def process_row_idle_date)
  next
    case NaN
    then have nd: "\<not> is_date_row r" by (simp add: is_date_row_def)
    from Cons.IH [of "add_activity py s1 r" "add_activity py s2 r"] Cons.prems
    show ?thesis by (simp add: finish_from_def process_row_idle_plain [OF _ nd] add_activity_fields)
  next
    case (Str x)
    then have nd: "\<not> is_date_row r" by (simp add: is_date_row_def)
    from Cons.IH [of "add_activity py s1 r" "add_activity py s2 r"] Cons.prems
    show ?thesis by (simp add: finish_from_def process_row_idle_plain [OF _ nd] add_activity_fields)
  next
    case (IntCell x)
    then have nd: "\<not> is_date_row r" by (simp add: is_date_row_def)
    from Cons.IH [of "add_activity py s1 r" "add_activity py s2 r"] Cons.prems
    show ?thesis by (simp add: finish_from_def process_row_idle_plain [OF _ nd] add_activity_fields)
  next
    case (FloatCell x)
    then have nd: "\<not> is_date_row r" by (simp add: is_date_row_def)
    from Cons.IH [of "add_activity py s1 r" "add_activity py s2 r"] Cons.prems
    show ?thesis by (simp add: finish_from_def process_row_idle_plain [OF _ nd] add_activity_fields)
  next
    case (BoolCell x)
    then have nd: "\<not> is_date_row r" by (simp add: is_date_row_def)
    from Cons.IH [of "add_activity py s1 r" "add_activity py s2 r"] Cons.prems
    show ?thesis by (simp add: finish_from_def process_row_idle_plain [OF _ nd] add_activity_fields)
  qed
qed

text \<open>
  Claim C6. Rows before the first date-typed cell are ignored: processing them raises no
  error, leaves no day open and adds no line, and the document of the whole grid is the
  document of the grid without them.
\<close>
theorem rows_before_first_date_are_ignored:
  assumes "\<forall>r\<in>set pre. \<not> is_date_row r"
  shows "(\<exists>st. process_rows py (idle_state lines0) pre = Inr st \<and> current_date st = None
              \<and> md_lines st = lines0)
       \<and> aggregate py lines0 (pre @ rest) = aggregate py lines0 rest"
proof -
  obtain st where st: "process_rows py (idle_state lines0) pre = Inr st" "current_date st = None"
      "md_lines st = lines0"
    using idle_rows_no_effect [of "idle_state lines0" pre py] assms
    by (auto simp: idle_state_def)
  have "finish_from py (idle_state lines0) (pre @ rest) = finish_from py st rest"
    by (simp add: finish_from_def process_rows_append st)
  also have "\<dots> = finish_from py (idle_state lines0) rest"
    by (rule idle_buffer_irrelevant) (simp_all add: st idle_state_def)
  finally show ?thesis using st by (auto simp: aggregate_finish_from)
qed

subsection \<open>Failures of the scan\<close>

lemma process_row_ok:
  assumes "pending_hours st = None"
    and "notna (row_cell r 11) \<longrightarrow> (\<forall>f. py_float py (row_cell r 11) = Inr f \<longrightarrow> is_finite f)"
  shows "\<exists>st'. process_row py st r = Inr st' \<and> pending_hours st' = None"
proof (cases "is_date_row r")
  case True
  then obtain d where d: "row_cell r 1 = Timestamp d"
    by (auto simp: is_date_row_def split: cell.splits)
  obtain st1 where "flush_day st = Inr st1" using flush_day_ok [of st] assms(1) by auto
  then show ?thesis by (simp add: process_row_date [OF d])
next
  case False
  show ?thesis
  proof (cases "notna (row_cell r 11) \<and> current_date st \<noteq> None")
    case True
    let ?st2 = "(add_activity py st r)\<lparr>pending_hours :=
        (case py_float py (row_cell r 11) of Inl e \<Rightarrow> None | Inr f \<Rightarrow> Some f)\<rparr>"
    have "case pending_hours ?st2 of None \<Rightarrow> True | Some f \<Rightarrow> is_finite f"
      using assms(2) True by (auto split: sum.splits)
    then obtain st3 where "flush_day ?st2 = Inr st3" using flush_day_ok [of ?st2] by blast
    then show ?thesis
      using True by (simp add: process_row_plain [OF False] Let_def)
  next
    case False
    then show ?thesis
      using assms(1) \<open>\<not> is_date_row r\<close>
      by (auto simp: process_row_plain Let_def add_activity_fields)
  qed
qed

lemma process_rows_ok:
  "pending_hours st = None \<Longrightarrow>
   \<forall>r\<in>set rows. notna (row_cell r 11) \<longrightarrow>
      (\<forall>f. py_float py (row_cell r 11) = Inr f \<longrightarrow> is_finite f) \<Longrightarrow>
   \<exists>st'. process_rows py st rows = Inr st' \<and> pending_hours st' = None"
proof (induction rows arbitrary: st)
  case Nil
  then show ?case by simp
next
  case (Cons r rows)
  obtain st1 where "process_row py st r = Inr st1" "pending_hours st1 = None"
    using process_row_ok [of st r py] Cons.prems by auto
  then show ?case using Cons.IH [of st1] Cons.prems by auto
qed

text \<open>
  Claim C8. While a day is open, a row without a date-typed cell whose hours cell fails
  to parse as a number does not fail: the day is flushed without an hours line and the
  state returns to idle. In a row with a date-typed cell the hours cell is not parsed and
  the open day is flushed without an hours line as well. A scan in which every hours cell
  either fails to parse or parses to a finite number returns a document: a parse failure
  never becomes an error of the conversion.
\<close>
theorem hours_parse_failure_is_swallowed:
  "(\<not> is_date_row row \<and> notna (row_cell row 11) \<and> current_date st = Some d
      \<and> py_float py (row_cell row 11) = Inl e \<longrightarrow>
      process_row py st row =
        Inr \<lparr>current_date = None, daily_activities = [], pending_hours = None,
             md_lines = md_lines st
               @ (if daily_activities (add_activity py st row) = [] then []
                  else day_section d (daily_activities (add_activity py st row)) [])\<rparr>)
   \<and> (row_cell drow 1 = Timestamp d' \<and> current_date st = Some d \<and> pending_hours st = None \<longrightarrow>
      process_row py st drow =
        Inr \<lparr>current_date = Some d', daily_activities = [], pending_hours = None,
             md_lines = md_lines st
               @ (if daily_activities st = [] then []
                  else day_section d (daily_activities st) [])\<rparr>)
   \<and> ((\<forall>r\<in>set rows. notna (row_cell r 11) \<longrightarrow>
          (\<forall>f. py_float py (row_cell r 11) = Inr f \<longrightarrow> is_finite f)) \<longrightarrow>
        (\<exists>lines. aggregate py lines0 rows = Inr lines))"
proof -
  have a': "process_row py st drow =
        Inr \<lparr>current_date = Some d', daily_activities = [], pending_hours = None,
             md_lines = md_lines st
               @ (if daily_activities st = [] then []
                  else day_section d (daily_activities st) [])\<rparr>"
    if "row_cell drow 1 = Timestamp d'" "current_date st = Some d" "pending_hours st = None"
    using that
    by (simp add: process_row_date flush_day_def hours_lines_None day_section_def)
  have a: "process_row py st row =
        Inr \<lparr>current_date = None, daily_activities = [], pending_hours = None,
             md_lines = md_lines st
               @ (if daily_activities (add_activity py st row) = [] then []
                  else day_section d (daily_activities (add_activity py st row)) [])\<rparr>"
    if "\<not> is_date_row row" "notna (row_cell row 11)" "current_date st = Some d"
      "py_float py (row_cell row 11) = Inl e"
    using that
    by (simp add: process_row_plain Let_def flush_day_def add_activity_fields hours_lines_None
        day_section_def)
  have b: "\<exists>lines. aggregate py lines0 rows = Inr lines"
    if h: "\<forall>r\<in>set rows. notna (row_cell r 11) \<longrightarrow>
          (\<forall>f. py_float py (row_cell r 11) = Inr f \<longrightarrow> is_finite f)"
  proof -
    obtain st1 where st1: "process_rows py (idle_state lines0) rows = Inr st1"
        "pending_hours st1 = None"
      using process_rows_ok [of "idle_state lines0" rows py] h by (auto simp: idle_state_def)
    obtain st2 where "flush_day st1 = Inr st2" using flush_day_ok [of st1] st1 by auto
    then show ?thesis using st1 by (simp add: aggregate_def idle_state_def)
  qed
  from a a' b show ?thesis by blast
qed


subsection \<open>Day groups\<close>


lemma float_of_int_exact: "\<bar>n\<bar> < 2 ^ 53 \<Longrightarrow> float_of_int n = Inr (of_int n)"
proof -
  assume a: "\<bar>n\<bar> < 2 ^ 53"
  then have m: "nat \<bar>n\<bar> < 2 ^ 53" by (simp add: nat_less_iff)
  have "(2::nat) ^ 53 < 2 ^ 1024" by simp
  with m have b: "\<not> 2 ^ 1024 \<le> nat \<bar>n\<bar>" by linarith
  have "sgn n * \<bar>n\<bar> = n" by (simp add: mult_sgn_abs)
  with m b show ?thesis by (simp add: float_of_int_def float_of_nat_def Let_def)
qed











subsection \<open>The properties on concrete grids\<close>

lemmas eval_simps =
  row12_def march_def float_of_int_exact
  row_cell_def is_date_row_def row_activity_def clean_text_def isna_def notna_def py_str_def
  py_strip_def py_split_def is_space_def flush_day_def hours_lines_def int_of_float_def
  trunc_rat_def py_float_def sample_py_def idle_state_def day_section_def stunden_lines_def
  strftime_dmY_def strftime_dm_def zfill_def str_int_def str_nat.simps digit_char_def
  add_activity_def is_finite_def plain_row_def is_tag_cell_def numeric_cell_def cell_hours_def

text \<open>A date row that also holds an activity and hours behaves as the bare date row.\<close>

theorem date_row_only_date_transition_witness:
  "row_cell (row12 (Timestamp (march 4)) (Str ''late note'') NaN (IntCell 8)) 1
     = Timestamp (march 4)
   \<and> process_row sample_py
        \<lparr>current_date = Some (march 3), daily_activities = [''Review tickets''],
         pending_hours = None, md_lines = []\<rparr>
        (row12 (Timestamp (march 4)) NaN NaN NaN)
     = process_row sample_py
        \<lparr>current_date = Some (march 3), daily_activities = [''Review tickets''],
         pending_hours = None, md_lines = []\<rparr>
        (row12 (Timestamp (march 4)) (Str ''late note'') NaN (IntCell 8))"
proof -
  have h: "row_cell (row12 (Timestamp (march 4)) (Str ''late note'') NaN (IntCell 8)) 1
     = Timestamp (march 4)"
    by (simp add: row_cell_def row12_def)
  have h': "row_cell (row12 (Timestamp (march 4)) NaN NaN NaN) 1 = Timestamp (march 4)"
    by (simp add: row_cell_def row12_def)
  from date_row_only_date_transition [OF h] h h' show ?thesis by blast
qed

text \<open>A day with hours and a blank activity adds nothing to the document.\<close>

theorem flush_emits_only_dated_nonempty_days_witness:
  "row_cell (row12 (Timestamp (march 3)) NaN NaN NaN) 1 = Timestamp (march 3)
   \<and> flush_day (idle_state [''---'']) = Inr (idle_state [''---''])
   \<and> (\<exists>st'. process_rows sample_py (idle_state [''---''])
              [row12 (Timestamp (march 3)) NaN NaN NaN, row12 NaN (Str ''   '') NaN (IntCell 8)]
             = Inr st' \<and> md_lines st' = [''---''] \<and> flush_day st' = Inr st')"
proof -
  have h1: "row_cell (row12 (Timestamp (march 3)) NaN NaN NaN) 1 = Timestamp (march 3)"
    by (simp add: row_cell_def row12_def)
  have h2: "\<forall>r\<in>set [row12 NaN (Str ''   '') NaN (IntCell 8)].
      \<not> is_date_row r \<and> row_activity sample_py r = []"
    by (simp add: eval_simps)
  have h3: "flush_day (idle_state [''---'']) = Inr (idle_state [''---''])"
    by (simp add: flush_day_def idle_state_def)
  from flush_emits_only_dated_nonempty_days
         [where st = "idle_state [''---'']" and py = sample_py
            and rd = "row12 (Timestamp (march 3)) NaN NaN NaN" and d = "march 3"
            and rs = "[row12 NaN (Str ''   '') NaN (IntCell 8)]"]
       h1 h2 h3
  have "\<exists>st'. process_rows sample_py (idle_state [''---''])
              [row12 (Timestamp (march 3)) NaN NaN NaN, row12 NaN (Str ''   '') NaN (IntCell 8)]
             = Inr st' \<and> md_lines st' = md_lines (idle_state [''---'']) \<and> flush_day st' = Inr st'"
    by blast
  then show ?thesis using h1 h3 by (simp add: idle_state_def)
qed

text \<open>The activity of the hours row is the last bullet of the section.\<close>

theorem activity_joins_day_before_hours_flush_witness:
  "process_row sample_py
     \<lparr>current_date = Some (march 3), daily_activities = [''Review tickets''],
      pending_hours = None, md_lines = []\<rparr>
     (row12 NaN (Str ''Write  report'') NaN (IntCell 8))
   = Inr \<lparr>current_date = None, daily_activities = [], pending_hours = None,
          md_lines = [''## 03.03.2025'', [], ''- Review tickets'', ''- Write report'', [],
                      ''**Stunden:** 8'', []]\<rparr>"
proof -
  let ?row = "row12 NaN (Str ''Write  report'') NaN (IntCell 8)"
  have h1: "\<not> is_date_row ?row" by (simp add: eval_simps)
  have h2: "row_activity sample_py ?row \<noteq> []" by (simp add: eval_simps)
  have h3: "notna (row_cell ?row 11)" by (simp add: eval_simps)
  show ?thesis
    using activity_joins_day_before_hours_flush [OF h1 h2 h3,
        where st = "\<lparr>current_date = Some (march 3), daily_activities = [''Review tickets''],
      pending_hours = None, md_lines = []\<rparr>" and d = "march 3"]
    by (simp add: eval_simps)
qed

text \<open>Two rows before the first date, one of them with hours, leave no trace.\<close>

theorem rows_before_first_date_are_ignored_witness:
  "aggregate sample_py [''---'']
     ([row12 NaN (Str ''stray note'') NaN NaN, row12 (Str ''Datum'') (Str ''more'') NaN (IntCell 8)]
      @ [row12 (Timestamp (march 3)) NaN NaN NaN, row12 NaN (Str ''Review tickets'') NaN NaN])
   = Inr [''---'', ''## 03.03.2025'', [], ''- Review tickets'', []]"
proof -
  let ?pre = "[row12 NaN (Str ''stray note'') NaN NaN,
               row12 (Str ''Datum'') (Str ''more'') NaN (IntCell 8)]"
  have h: "\<forall>r\<in>set ?pre. \<not> is_date_row r" by (simp add: eval_simps)
  have "aggregate sample_py [''---'']
          [row12 (Timestamp (march 3)) NaN NaN NaN, row12 NaN (Str ''Review tickets'') NaN NaN]
        = Inr [''---'', ''## 03.03.2025'', [], ''- Review tickets'', []]"
    by (simp add: aggregate_def process_row_def eval_simps)
  with rows_before_first_date_are_ignored [OF h, of sample_py "[''---'']"
      "[row12 (Timestamp (march 3)) NaN NaN NaN, row12 NaN (Str ''Review tickets'') NaN NaN]"]
  show ?thesis by simp
qed

text \<open>The hours cell "acht" closes the day without an hours line.\<close>

theorem hours_parse_failure_is_swallowed_witness:
  "py_float sample_py (Str ''acht'') = Inl ValueError
   \<and> process_row sample_py
        \<lparr>current_date = Some (march 3), daily_activities = [''Review tickets''],
         pending_hours = None, md_lines = []\<rparr>
        (row12 NaN NaN NaN (Str ''acht''))
     = Inr \<lparr>current_date = None, daily_activities = [], pending_hours = None,
            md_lines = [''## 03.03.2025'', [], ''- Review tickets'', []]\<rparr>
   \<and> process_row sample_py
        \<lparr>current_date = Some (march 3), daily_activities = [''Review tickets''],
         pending_hours = None, md_lines = []\<rparr>
        (row12 (Timestamp (march 4)) NaN NaN (Str ''acht''))
     = Inr \<lparr>current_date = Some (march 4), daily_activities = [], pending_hours = None,
            md_lines = [''## 03.03.2025'', [], ''- Review tickets'', []]\<rparr>
   \<and> (\<exists>lines. aggregate sample_py []
         [row12 (Timestamp (march 3)) NaN NaN NaN, row12 NaN (Str ''Review tickets'') NaN NaN,
          row12 NaN NaN NaN (Str ''acht'')] = Inr lines)"
proof -
  let ?row = "row12 NaN NaN NaN (Str ''acht'')"
  let ?drow = "row12 (Timestamp (march 4)) NaN NaN (Str ''acht'')"
  let ?st = "\<lparr>current_date = Some (march 3), daily_activities = [''Review tickets''],
         pending_hours = None, md_lines = []\<rparr>"
  let ?rows = "[row12 (Timestamp (march 3)) NaN NaN NaN,
          row12 NaN (Str ''Review tickets'') NaN NaN, ?row]"
  have f: "py_float sample_py (Str ''acht'') = Inl ValueError"
    by (simp add: py_float_def sample_py_def int_of_str_def c_strip_def is_c_space_def
        is_digit_def)
  have h: "\<not> is_date_row ?row \<and> notna (row_cell ?row 11) \<and> current_date ?st = Some (march 3)
      \<and> py_float sample_py (row_cell ?row 11) = Inl ValueError"
    using f by (simp add: row_cell_def is_date_row_def notna_def isna_def row12_def)
  have k: "row_cell ?drow 1 = Timestamp (march 4) \<and> current_date ?st = Some (march 3)
      \<and> pending_hours ?st = None"
    by (simp add: row_cell_def row12_def)
  have g: "\<forall>r\<in>set ?rows. notna (row_cell r 11) \<longrightarrow>
      (\<forall>f. py_float sample_py (row_cell r 11) = Inr f \<longrightarrow> is_finite f)"
    using f by (simp add: row_cell_def notna_def isna_def row12_def)
  from hours_parse_failure_is_swallowed [where row = ?row and st = ?st and py = sample_py
      and d = "march 3" and e = ValueError and drow = ?drow and d' = "march 4"
      and rows = ?rows and ?lines0.0 = "[]"] h k g f
  show ?thesis by (simp add: eval_simps)
qed

text \<open>
  An hours cell that does parse, to an infinity, is not a parse failure: \<open>int\<close> of it
  raises inside \<open>flush_day\<close>, outside the \<open>try\<close>, and the conversion fails.
\<close>

lemma hours_infinity_raises:
  "process_row sample_py
     \<lparr>current_date = Some (march 3), daily_activities = [''Review tickets''],
      pending_hours = None, md_lines = []\<rparr>
     (row12 NaN NaN NaN (Str ''inf''))
   = Inl OverflowError"
  by (simp add: process_row_def eval_simps)


text \<open>An integer above \<open>2^53\<close> is printed as the nearest double, not as itself.\<close>

lemma float_of_int_rounds: "float_of_int 9007199254740993 = Inr 9007199254740992"
  by (simp add: float_of_int_def float_of_nat_def bit_length.simps Let_def)


section \<open>Properties of the date resolver and of the rendering\<close>

subsection \<open>The end-to-end example\<close>

lemma flush_day_md_prefix:
  "flush_day st = Inr st' \<Longrightarrow> \<exists>ext. md_lines st' = md_lines st @ ext"
  by (auto simp: flush_day_def split: option.splits if_splits sum.splits)

lemma process_row_md_prefix:
  "process_row py st row = Inr st' \<Longrightarrow> \<exists>ext. md_lines st' = md_lines st @ ext"
proof (cases "is_date_row row")
  case True
  assume a: "process_row py st row = Inr st'"
  from True obtain d where d: "row_cell row 1 = Timestamp d"
    by (auto simp: is_date_row_def split: cell.splits)
  from a show ?thesis
    using flush_day_md_prefix [of st]
    by (auto simp: process_row_date [OF d] split: sum.splits)
next
  case False
  assume a: "process_row py st row = Inr st'"
  show ?thesis
  proof (cases "notna (row_cell row 11) \<and> current_date st \<noteq> None")
    case True
    with a False obtain st3 where
      f: "flush_day ((add_activity py st row)\<lparr>pending_hours :=
            (case py_float py (row_cell row 11) of Inl e \<Rightarrow> None | Inr f \<Rightarrow> Some f)\<rparr>) = Inr st3"
      and e: "st' = st3\<lparr>current_date := None, daily_activities := [], pending_hours := None\<rparr>"
      by (auto simp: process_row_plain Let_def split: sum.splits)
    from flush_day_md_prefix [OF f] e show ?thesis by (auto simp: add_activity_fields)
  next
    case c: False
    with a False have "st' = add_activity py st row"
      by (auto simp: process_row_plain Let_def)
    then show ?thesis by (simp add: add_activity_fields)
  qed
qed

lemma process_rows_md_prefix:
  "process_rows py st rows = Inr st' \<Longrightarrow> \<exists>ext. md_lines st' = md_lines st @ ext"
proof (induction rows arbitrary: st)
  case Nil
  then show ?case by simp
next
  case (Cons r rows)
  then obtain st1 where 1: "process_row py st r = Inr st1" and 2: "process_rows py st1 rows = Inr st'"
    by (auto split: sum.splits)
  from process_row_md_prefix [OF 1] Cons.IH [OF 2] show ?case by auto
qed

lemma aggregate_prefix:
  "aggregate py lines0 rows = Inr lines \<Longrightarrow> \<exists>ext. lines = lines0 @ ext"
proof -
  assume a: "aggregate py lines0 rows = Inr lines"
  then obtain st st1 where 1: "process_rows py (idle_state lines0) rows = Inr st"
    and 2: "flush_day st = Inr st1" and 3: "lines = md_lines st1"
    by (auto simp: aggregate_def idle_state_def split: sum.splits)
  from process_rows_md_prefix [OF 1] flush_day_md_prefix [OF 2] 3
  show ?thesis by (auto simp: idle_state_def)
qed

lemma rstrip_keeps_solid:
  assumes "t \<noteq> []" and "\<not> P (last t)"
  shows "\<exists>r1 r2. rev (dropWhile P (rev (t @ r))) = t @ r1 \<and> r = r1 @ r2"
proof (cases "\<forall>x\<in>set r. P x")
  case True
  have "dropWhile P (rev t) = rev t"
    using assms by (cases t rule: rev_cases) simp_all
  then have "rev (dropWhile P (rev (t @ r))) = t"
    using True by (simp add: dropWhile_append)
  then show ?thesis by auto
next
  case False
  then have "rev (dropWhile P (rev (t @ r))) = t @ rev (dropWhile P (rev r))"
    by (auto simp: dropWhile_append)
  moreover have "r = rev (dropWhile P (rev r)) @ rev (takeWhile P (rev r))"
    by (metis rev_append rev_rev_ident takeWhile_dropWhile_id)
  ultimately show ?thesis by blast
qed

lemma first_line_of_document:
  assumes "t \<noteq> []" and "\<not> is_space (hd t)" and "\<not> is_space (last t)" and "newline \<notin> set t"
  shows "takeWhile (\<lambda>c. c \<noteq> newline) (py_strip (py_join [newline] (t # rest))) = t"
proof -
  obtain r where j: "py_join [newline] (t # rest) = t @ r" and r: "r = [] \<or> hd r = newline"
    by (cases rest) auto
  have l: "dropWhile is_space (t @ r) = t @ r"
    using assms(1,2) by (cases t) simp_all
  obtain r1 r2 where s: "rev (dropWhile is_space (rev (t @ r))) = t @ r1" and p: "r = r1 @ r2"
    using rstrip_keeps_solid [of t is_space r] assms(1,3) by blast
  have "r1 = [] \<or> hd r1 = newline" using r p by (cases r1) auto
  then have "takeWhile (\<lambda>c. c \<noteq> newline) (t @ r1) = t"
    using assms(4) by (cases r1) (auto simp: takeWhile_append)
  moreover have "py_strip (py_join [newline] (t # rest)) = t @ r1"
    unfolding py_strip_def j l s by (rule refl)
  ultimately show ?thesis by (simp only:)
qed

lemmas name_eval =
  parse_dates_from_filename_def stem_def rfind_dot_def re_match_here_def lit_def
  re_dd_sep_dd_def re_opt_dot_def re_opt_dot_dd_def re_ws_def is_digit_def is_space_def
  rstrip_dot_def replace_dash_def

lemmas date_eval =
  parse_date_def strptime_dmY_def strptime_dmy_def re_d_m_year_def re_d_def re_m_def re_Y_def
  re_y_def lit_def is_digit_def is_digit19_def digit_val_def mk_datetime_def days_in_month_def
  is_leap_def pivot_year_def

lemmas iso_eval =
  isocalendar_def isoweek1monday_def ymd2ord_def days_before_year_def days_before_month_def
  is_leap_def Let_def

lemmas fmt_eval =
  title_line_def out_filename_def strftime_dmY_def strftime_dm_def zfill_def str_int_def
  str_nat.simps digit_char_def

lemma example_tokens:
  "parse_dates_from_filename ''AusbildungsnachweisU27_03.03-07.03.xlsx''
     = Some (''03.03'', ''07.03'', ''AusbildungsnachweisU27_03.03-07.03'')"
  by (simp add: name_eval)

lemma example_start: "parse_date ''03.03'' ''2025'' = Inr \<lparr>dt_year = 2025, dt_month = 3, dt_day = 3\<rparr>"
  by (simp add: date_eval)

lemma example_end: "parse_date ''07.03'' ''2025'' = Inr \<lparr>dt_year = 2025, dt_month = 3, dt_day = 7\<rparr>"
  by (simp add: date_eval)

lemma example_week: "isocalendar \<lparr>dt_year = 2025, dt_month = 3, dt_day = 3\<rparr> = (2025, 10, 1)"
  by (simp add: iso_eval)

lemma example_title:
  "title_line 10 \<lparr>dt_year = 2025, dt_month = 3, dt_day = 3\<rparr> \<lparr>dt_year = 2025, dt_month = 3, dt_day = 7\<rparr>
     = ''# KW10 - Ausbildungsnachweis (03.03.2025 - 07.03.2025)''"
  by (simp add: fmt_eval)

lemma example_out_filename:
  "out_filename 10 \<lparr>dt_year = 2025, dt_month = 3, dt_day = 3\<rparr> \<lparr>dt_year = 2025, dt_month = 3, dt_day = 7\<rparr>
     = ''2025-KW10-Ausbildungsnachweis-03.03-07.03.md''"
  by (simp add: fmt_eval)

lemma example_no_24: "\<not> contains ''.24'' ''AusbildungsnachweisU27_03.03-07.03.xlsx''"
  by simp

lemma example_year:
  "shape1 df \<le> 11 \<or> iloc df 2 11 = Inr NaN \<Longrightarrow>
   actual_year ''2025'' ''AusbildungsnachweisU27_03.03-07.03.xlsx'' df = Inr ''2025''"
  using example_no_24 by (auto simp: actual_year_def isna_def)

text \<open>
  Claim C5. For the file name \<open>AusbildungsnachweisU27_03.03-07.03.xlsx\<close>, default year
  "2025" and a grid without a year cell (fewer than 12 columns, or an empty cell in row 2,
  column 11): the tokens are 03.03 and 07.03, the year is "2025", the dates are 2025-03-03
  and 2025-03-07, the ISO week is 10 of ISO year 2025; whenever the conversion returns,
  the output file name is \<open>2025-KW10-Ausbildungsnachweis-03.03-07.03.md\<close> and the first
  line of the document is \<open># KW10 - Ausbildungsnachweis (03.03.2025 - 07.03.2025)\<close>.
\<close>
theorem end_to_end_example:
  assumes "shape1 df \<le> 11 \<or> iloc df 2 11 = Inr NaN"
  shows "parse_dates_from_filename ''AusbildungsnachweisU27_03.03-07.03.xlsx''
           = Some (''03.03'', ''07.03'', ''AusbildungsnachweisU27_03.03-07.03'')
       \<and> actual_year ''2025'' ''AusbildungsnachweisU27_03.03-07.03.xlsx'' df = Inr ''2025''
       \<and> parse_date ''03.03'' ''2025'' = Inr \<lparr>dt_year = 2025, dt_month = 3, dt_day = 3\<rparr>
       \<and> parse_date ''07.03'' ''2025'' = Inr \<lparr>dt_year = 2025, dt_month = 3, dt_day = 7\<rparr>
       \<and> isocalendar \<lparr>dt_year = 2025, dt_month = 3, dt_day = 3\<rparr> = (2025, 10, 1)
       \<and> (\<forall>fn content.
            convert_excel_to_markdown py ''2025'' ''AusbildungsnachweisU27_03.03-07.03.xlsx'' df
              = Inr (fn, content) \<longrightarrow>
            fn = ''2025-KW10-Ausbildungsnachweis-03.03-07.03.md''
            \<and> takeWhile (\<lambda>c. c \<noteq> newline) content
                = ''# KW10 - Ausbildungsnachweis (03.03.2025 - 07.03.2025)'')"
proof -
  let ?t = "''# KW10 - Ausbildungsnachweis (03.03.2025 - 07.03.2025)''"
  have conv: "fn = ''2025-KW10-Ausbildungsnachweis-03.03-07.03.md''
            \<and> takeWhile (\<lambda>c. c \<noteq> newline) content = ?t"
    if c: "convert_excel_to_markdown py ''2025'' ''AusbildungsnachweisU27_03.03-07.03.xlsx'' df
              = Inr (fn, content)" for fn content
  proof -
    from c obtain name course lines where
      a: "aggregate py (header_lines 10 \<lparr>dt_year = 2025, dt_month = 3, dt_day = 3\<rparr>
             \<lparr>dt_year = 2025, dt_month = 3, dt_day = 7\<rparr> name course ''2025'')
             (drop (data_start_row df) df) = Inr lines"
      and fn: "fn = out_filename 10 \<lparr>dt_year = 2025, dt_month = 3, dt_day = 3\<rparr>
             \<lparr>dt_year = 2025, dt_month = 3, dt_day = 7\<rparr>"
      and ct: "content = py_strip (py_join [newline] lines)"
      by (auto simp: convert_excel_to_markdown_def example_tokens example_year [OF assms]
            example_start example_end example_week split: sum.splits)
    from aggregate_prefix [OF a] obtain rest where "lines = ?t # rest"
      by (auto simp: header_lines_def example_title)
    then have "takeWhile (\<lambda>c. c \<noteq> newline) content = ?t"
      unfolding ct by (simp only:) (rule first_line_of_document; simp add: is_space_def newline_def)
    then show ?thesis by (simp add: fn example_out_filename)
  qed
  show ?thesis
    using conv example_tokens example_year [OF assms] example_start example_end example_week
    by blast
qed


text \<open>
  The example on a grid of twelve columns: two header rows, an empty year cell in row 2,
  the marker row, and one day. The conversion returns.
\<close>

theorem end_to_end_example_witness:
  "iloc [row12 NaN NaN (Str ''Mustermann, Max'') NaN,
         row12 NaN NaN (Str ''Fachinformatiker'') NaN,
         row12 NaN NaN NaN NaN,
         row12 (Str ''Tag'') (Str ''Taetigkeit'') NaN (Str ''Std''),
         row12 (Timestamp (march 3)) NaN NaN NaN,
         row12 NaN (Str ''Review tickets'') NaN NaN,
         row12 NaN (Str ''Write report'') NaN (IntCell 8)] 2 11 = Inr NaN
   \<and> (\<exists>content.
        convert_excel_to_markdown sample_py ''2025'' ''AusbildungsnachweisU27_03.03-07.03.xlsx''
          [row12 NaN NaN (Str ''Mustermann, Max'') NaN,
           row12 NaN NaN (Str ''Fachinformatiker'') NaN,
           row12 NaN NaN NaN NaN,
           row12 (Str ''Tag'') (Str ''Taetigkeit'') NaN (Str ''Std''),
           row12 (Timestamp (march 3)) NaN NaN NaN,
           row12 NaN (Str ''Review tickets'') NaN NaN,
           row12 NaN (Str ''Write report'') NaN (IntCell 8)]
          = Inr (''2025-KW10-Ausbildungsnachweis-03.03-07.03.md'', content)
        \<and> takeWhile (\<lambda>c. c \<noteq> newline) content
            = ''# KW10 - Ausbildungsnachweis (03.03.2025 - 07.03.2025)'')"
proof -
  let ?df = "[row12 NaN NaN (Str ''Mustermann, Max'') NaN,
           row12 NaN NaN (Str ''Fachinformatiker'') NaN,
           row12 NaN NaN NaN NaN,
           row12 (Str ''Tag'') (Str ''Taetigkeit'') NaN (Str ''Std''),
           row12 (Timestamp (march 3)) NaN NaN NaN,
           row12 NaN (Str ''Review tickets'') NaN NaN,
           row12 NaN (Str ''Write report'') NaN (IntCell 8)]"
  have h: "iloc ?df 2 11 = Inr NaN" by (simp add: iloc_def row12_def)
  then have h': "shape1 ?df \<le> 11 \<or> iloc ?df 2 11 = Inr NaN" ..
  have n: "header_text sample_py ?df 0 ''Nicolay, Dimitrios'' = Inr ''Mustermann, Max''"
    by (simp add: header_text_def shape1_def iloc_def eval_simps)
  have c: "header_text sample_py ?df 1 ''Fachinformatiker SI - U27B (IHK)''
      = Inr ''Fachinformatiker''"
    by (simp add: header_text_def shape1_def iloc_def eval_simps)
  have d: "drop (data_start_row ?df) ?df
      = [row12 (Timestamp (march 3)) NaN NaN NaN,
         row12 NaN (Str ''Review tickets'') NaN NaN,
         row12 NaN (Str ''Write report'') NaN (IntCell 8)]"
    by (simp add: data_start_row_def shape1_def is_tag_cell_def row_cell_def row12_def)
  have a: "aggregate sample_py lines0
        [row12 (Timestamp (march 3)) NaN NaN NaN,
         row12 NaN (Str ''Review tickets'') NaN NaN,
         row12 NaN (Str ''Write report'') NaN (IntCell 8)]
      = Inr (lines0 @ [''## 03.03.2025'', [], ''- Review tickets'', ''- Write report'', [],
                       ''**Stunden:** 8'', []])" for lines0
    by (simp add: aggregate_def process_row_def eval_simps)
  have "\<exists>fn content.
      convert_excel_to_markdown sample_py ''2025'' ''AusbildungsnachweisU27_03.03-07.03.xlsx'' ?df
        = Inr (fn, content)"
    using n c d
    by (simp add: convert_excel_to_markdown_def example_tokens example_year [OF h']
        example_start example_end example_week a)
  with end_to_end_example [OF h', of sample_py] h show ?thesis by metis
qed

subsection \<open>The tokens of a file name and the order of the date range\<close>

lemma is_digit_not_dot: "is_digit c \<Longrightarrow> c \<noteq> CHR ''.'' \<and> c \<noteq> CHR ''-''"
  by (auto simp: is_digit_def)

lemma re_dd_sep_dd_elem:
  "(g, r) \<in> set (re_dd_sep_dd seps s) \<Longrightarrow>
   \<exists>a b c d e. g = [a, b, c, d, e] \<and> is_digit a \<and> is_digit b \<and> c \<in> set seps
      \<and> is_digit d \<and> is_digit e"
  by (auto simp: re_dd_sep_dd_def split: list.splits if_splits)

lemma re_opt_dot_elem: "(d, r) \<in> set (re_opt_dot s) \<Longrightarrow> d = [] \<or> d = ''.''"
  by (auto simp: re_opt_dot_def split: list.splits if_splits)

lemma re_match_here_elem:
  "(m1, m2) \<in> set (re_match_here s) \<Longrightarrow>
   \<exists>g1 d1 g2 d2 r r'. m1 = g1 @ d1 \<and> m2 = g2 @ d2
      \<and> (g1, r) \<in> set (re_dd_sep_dd ''.'' (tl s)) \<and> (d1 = [] \<or> d1 = ''.'')
      \<and> (\<exists>s'. (g2, r') \<in> set (re_dd_sep_dd ''.-'' s')) \<and> (d2 = [] \<or> d2 = ''.'')"
  unfolding re_match_here_def
  by (auto simp: lit_def split: list.splits if_splits dest!: re_opt_dot_elem) blast+

lemma re_search_elem:
  "re_search s = Some m \<Longrightarrow> \<exists>s'. m \<in> set (re_match_here s')"
proof (induction s)
  case Nil
  then show ?case by (cases "re_match_here []") (auto intro: exI [of _ "[]"])
next
  case (Cons c s)
  show ?case
  proof (cases "re_match_here (c # s)")
    case Nil
    with Cons show ?thesis by simp
  next
    case (Cons m' ms)
    with Cons.prems have "m \<in> set (re_match_here (c # s))" by simp
    then show ?thesis ..
  qed
qed

lemma tokens_shape:
  assumes "parse_dates_from_filename filename = Some (start_raw, end_raw, base)"
  shows "is_token start_raw \<and> is_token end_raw"
proof -
  from assms obtain m1 m2 where s: "re_search (stem filename) = Some (m1, m2)"
    and sr: "start_raw = rstrip_dot m1" and er: "end_raw = rstrip_dot (replace_dash m2)"
    by (auto simp: parse_dates_from_filename_def Let_def split: option.splits)
  from re_search_elem [OF s] obtain s' where "(m1, m2) \<in> set (re_match_here s')" by blast
  from re_match_here_elem [OF this] obtain g1 d1 g2 d2 r r' s'' where
    m: "m1 = g1 @ d1" "m2 = g2 @ d2" and g1: "(g1, r) \<in> set (re_dd_sep_dd ''.'' (tl s'))"
    and d: "d1 = [] \<or> d1 = ''.''" "d2 = [] \<or> d2 = ''.''"
    and g2: "(g2, r') \<in> set (re_dd_sep_dd ''.-'' s'')" by blast
  from re_dd_sep_dd_elem [OF g1] d(1) have "is_token (rstrip_dot (g1 @ d1))"
    by (auto simp: is_token_def rstrip_dot_def dest: is_digit_not_dot)
  moreover from re_dd_sep_dd_elem [OF g2] d(2) have "is_token (rstrip_dot (replace_dash (g2 @ d2)))"
    by (auto simp: is_token_def rstrip_dot_def replace_dash_def dest: is_digit_not_dot)
  ultimately show ?thesis by (simp add: sr er m)
qed


lemma digit_val_0 [simp]: "digit_val CHR ''0'' = 0"
  and digit_val_1 [simp]: "digit_val CHR ''1'' = 1"
  and digit_val_2 [simp]: "digit_val CHR ''2'' = 2"
  and digit_val_3 [simp]: "digit_val CHR ''3'' = 3"
  by (simp_all add: digit_val_def is_digit_def)

lemma split_on_token:
  "is_digit a \<Longrightarrow> is_digit b \<Longrightarrow> is_digit d \<Longrightarrow> is_digit e \<Longrightarrow>
   split_on CHR ''.'' [a, b, CHR ''.'', d, e] = [[a, b], [d, e]]"
  by (auto dest: is_digit_not_dot)

lemma is_digit19_digit: "is_digit19 c \<Longrightarrow> is_digit c"
  by (auto simp: is_digit19_def is_digit_def)

lemma re_d_token:
  assumes "is_digit a" "is_digit b"
  shows "concat (map (\<lambda>(d, r1). concat (map (f d) (lit CHR ''.'' r1))) (re_d (a # b # CHR ''.'' # r)))
     = (if (a = CHR ''3'' \<and> b \<in> set ''01'') \<or> a \<in> set ''12'' \<or> (a = CHR ''0'' \<and> is_digit19 b)
        then f (10 * digit_val a + digit_val b) r else [])"
  using assms is_digit_not_dot [of b]
  by (auto simp: re_d_def lit_def is_digit19_def is_digit_def)

lemma re_m_token:
  assumes "is_digit a" "is_digit b"
  shows "concat (map (\<lambda>(m, r3). concat (map (f m) (lit CHR ''.'' r3))) (re_m (a # b # CHR ''.'' # r)))
     = (if (a = CHR ''1'' \<and> b \<in> set ''012'') \<or> (a = CHR ''0'' \<and> is_digit19 b)
        then f (10 * digit_val a + digit_val b) r else [])"
  using assms is_digit_not_dot [of b]
  by (auto simp: re_m_def lit_def is_digit19_def is_digit_def)


lemma re_d_m_year_token:
  assumes "is_digit a" "is_digit b" "is_digit d" "is_digit e"
  shows "re_d_m_year re_year ([a, b, CHR ''.'', d, e] @ ''.'' @ yr)
     = (if ((a = CHR ''3'' \<and> b \<in> set ''01'') \<or> a \<in> set ''12'' \<or> (a = CHR ''0'' \<and> is_digit19 b))
           \<and> ((d = CHR ''1'' \<and> e \<in> set ''012'') \<or> (d = CHR ''0'' \<and> is_digit19 e))
        then map (\<lambda>(y, r5). (10 * digit_val a + digit_val b, 10 * digit_val d + digit_val e, y, r5))
               (re_year yr)
        else [])"
proof -
  let ?D = "(a = CHR ''3'' \<and> b \<in> set ''01'') \<or> a \<in> set ''12'' \<or> (a = CHR ''0'' \<and> is_digit19 b)"
  let ?M = "(d = CHR ''1'' \<and> e \<in> set ''012'') \<or> (d = CHR ''0'' \<and> is_digit19 e)"
  let ?dv = "10 * digit_val a + digit_val b" and ?mv = "10 * digit_val d + digit_val e"
  have 1: "re_d_m_year re_year (a # b # CHR ''.'' # d # e # CHR ''.'' # yr)
      = (if ?D
         then concat (map (\<lambda>(m, r3). concat (map (\<lambda>r4. map (\<lambda>(y, r5). (?dv, m, y, r5)) (re_year r4))
                 (lit CHR ''.'' r3))) (re_m (d # e # CHR ''.'' # yr)))
         else [])"
    unfolding re_d_m_year_def by (rule re_d_token [OF assms(1,2)])
  have 2: "concat (map (\<lambda>(m, r3). concat (map (\<lambda>r4. map (\<lambda>(y, r5). (?dv, m, y, r5)) (re_year r4))
                 (lit CHR ''.'' r3))) (re_m (d # e # CHR ''.'' # yr)))
      = (if ?M then map (\<lambda>(y, r5). (?dv, ?mv, y, r5)) (re_year yr) else [])"
    by (rule re_m_token [OF assms(3,4)])
  have "[a, b, CHR ''.'', d, e] @ ''.'' @ yr = a # b # CHR ''.'' # d # e # CHR ''.'' # yr"
    by simp
  then show ?thesis
    unfolding 1 2 by (simp only: 1 2 if_True if_False split: if_splits) auto
qed

lemma parse_date_token:
  assumes "is_token t" and "parse_date t yr = Inr dt"
  shows "dt = \<lparr>dt_year = year_value yr, dt_month = token_month t, dt_day = token_day t\<rparr>"
proof -
  from assms(1) obtain a b d e where t: "t = [a, b, CHR ''.'', d, e]"
    and dg: "is_digit a" "is_digit b" "is_digit d" "is_digit e"
    by (auto simp: is_token_def split: list.splits)
  have "parse_date [a, b, CHR ''.'', d, e] yr = strptime_dmY ([a, b, CHR ''.'', d, e] @ ''.'' @ yr)"
    unfolding parse_date_def split_on_token [OF dg] by simp
  with assms(2) have "strptime_dmY ([a, b, CHR ''.'', d, e] @ ''.'' @ yr) = Inr dt"
    by (simp add: t)
  then show ?thesis
    unfolding strptime_dmY_def re_d_m_year_token [OF dg]
    by (auto simp: t year_value_def token_day_def token_month_def mk_datetime_def
          split: if_splits list.splits)
qed

text \<open>
  Claim C2, as amended. When the file name yields two tokens and both parse, start and end
  are the tokens' day and month with the same resolved year, so start \<open>\<le>\<close> end holds
  exactly when the start token's (month, day) is not later than the end token's: the order
  is not checked.
\<close>
theorem date_range_order_follows_tokens:
  assumes "date_range filename yr = Inr (s, e)"
  shows "\<exists>start_raw end_raw base.
           parse_dates_from_filename filename = Some (start_raw, end_raw, base)
           \<and> s = \<lparr>dt_year = year_value yr, dt_month = token_month start_raw,
                  dt_day = token_day start_raw\<rparr>
           \<and> e = \<lparr>dt_year = year_value yr, dt_month = token_month end_raw,
                  dt_day = token_day end_raw\<rparr>
           \<and> (dt_le s e \<longleftrightarrow>
                token_month start_raw < token_month end_raw
                \<or> (token_month start_raw = token_month end_raw
                    \<and> token_day start_raw \<le> token_day end_raw))"
proof -
  from assms obtain start_raw end_raw base where
    p: "parse_dates_from_filename filename = Some (start_raw, end_raw, base)"
    and s: "parse_date start_raw yr = Inr s" and e: "parse_date end_raw yr = Inr e"
    by (auto simp: date_range_def split: option.splits if_splits sum.splits)
  from tokens_shape [OF p] have tk: "is_token start_raw" "is_token end_raw" by simp_all
  note s' = parse_date_token [OF tk(1) s] and e' = parse_date_token [OF tk(2) e]
  have "dt_le s e \<longleftrightarrow>
                token_month start_raw < token_month end_raw
                \<or> (token_month start_raw = token_month end_raw
                    \<and> token_day start_raw \<le> token_day end_raw)"
    by (subst s', subst e') (simp add: dt_le_def)
  with p s' e' show ?thesis by blast
qed

text \<open>
  A week that crosses the turn of the year gives a start after the end: the order of the
  range is not guaranteed.
\<close>
theorem date_range_start_after_end:
  "date_range ''AusbildungsnachweisU27_30.12-03.01.xlsx'' ''2025''
     = Inr (\<lparr>dt_year = 2025, dt_month = 12, dt_day = 30\<rparr>,
            \<lparr>dt_year = 2025, dt_month = 1, dt_day = 3\<rparr>)
   \<and> \<not> dt_le \<lparr>dt_year = 2025, dt_month = 12, dt_day = 30\<rparr>
              \<lparr>dt_year = 2025, dt_month = 1, dt_day = 3\<rparr>"
proof -
  have "parse_dates_from_filename ''AusbildungsnachweisU27_30.12-03.01.xlsx''
     = Some (''30.12'', ''03.01'', ''AusbildungsnachweisU27_30.12-03.01'')"
    by (simp add: name_eval)
  moreover have "parse_date ''30.12'' ''2025'' = Inr \<lparr>dt_year = 2025, dt_month = 12, dt_day = 30\<rparr>"
    by (simp add: date_eval)
  moreover have "parse_date ''03.01'' ''2025'' = Inr \<lparr>dt_year = 2025, dt_month = 1, dt_day = 3\<rparr>"
    by (simp add: date_eval)
  ultimately show ?thesis by (simp add: date_range_def dt_le_def)
qed

text \<open>The order of the range on the file name of the example.\<close>

theorem date_range_order_follows_tokens_witness:
  "date_range ''AusbildungsnachweisU27_03.03-07.03.xlsx'' ''2025''
     = Inr (\<lparr>dt_year = 2025, dt_month = 3, dt_day = 3\<rparr>,
            \<lparr>dt_year = 2025, dt_month = 3, dt_day = 7\<rparr>)
   \<and> dt_le \<lparr>dt_year = 2025, dt_month = 3, dt_day = 3\<rparr> \<lparr>dt_year = 2025, dt_month = 3, dt_day = 7\<rparr>"
proof -
  have r: "date_range ''AusbildungsnachweisU27_03.03-07.03.xlsx'' ''2025''
     = Inr (\<lparr>dt_year = 2025, dt_month = 3, dt_day = 3\<rparr>,
            \<lparr>dt_year = 2025, dt_month = 3, dt_day = 7\<rparr>)"
    by (simp add: date_range_def example_tokens example_start example_end)
  from date_range_order_follows_tokens [OF r]
  have "dt_le \<lparr>dt_year = 2025, dt_month = 3, dt_day = 3\<rparr> \<lparr>dt_year = 2025, dt_month = 3, dt_day = 7\<rparr>"
    by (auto simp: example_tokens token_month_def token_day_def digit_val_def is_digit_def)
  with r show ?thesis by simp
qed


subsection \<open>The year of the report\<close>

lemma actual_year_chain:
  assumes "shape1 df \<le> 11 \<or> (2 < length df \<and> 11 < length (df ! 2))"
  shows "actual_year default_year filename df =
     Inr (case (if shape1 df > 11 \<and> notna (df ! 2 ! 11) then py_int (df ! 2 ! 11)
                else Inl ValueError) of
            Inr n \<Rightarrow> str_int n
          | Inl e \<Rightarrow> if contains ''.24'' filename then ''2024'' else default_year)"
  using assms by (auto simp: actual_year_def iloc_def notna_def split: sum.splits)

text \<open>
  Claim C4. The fallback chain is what the code does when the grid has at most 11 columns
  or has a row 2 (\<open>actual_year_chain\<close>). On a grid with 12 columns and only two rows
  (here the year was typed one row too high) no cell exists at row 2, column 11, yet the
  code does not fall back to the file name or the default year: \<open>df.iloc[2, 11]\<close> raises
  \<open>IndexError\<close> and the conversion fails.
\<close>
theorem year_cell_row_missing_raises:
  "actual_year ''2025'' ''AusbildungsnachweisU27_03.03-07.03.xlsx''
     [row12 NaN NaN (Str ''Mustermann, Max'') NaN,
      row12 NaN NaN (Str ''Fachinformatiker'') (IntCell 2025)]
     = Inl IndexError
   \<and> convert_excel_to_markdown sample_py ''2025'' ''AusbildungsnachweisU27_03.03-07.03.xlsx''
     [row12 NaN NaN (Str ''Mustermann, Max'') NaN,
      row12 NaN NaN (Str ''Fachinformatiker'') (IntCell 2025)]
     = Inl IndexError"
proof -
  have "actual_year ''2025'' ''AusbildungsnachweisU27_03.03-07.03.xlsx''
     [row12 NaN NaN (Str ''Mustermann, Max'') NaN,
      row12 NaN NaN (Str ''Fachinformatiker'') (IntCell 2025)]
     = Inl IndexError"
    by (simp add: actual_year_def shape1_def iloc_def row12_def)
  then show ?thesis by (simp add: convert_excel_to_markdown_def example_tokens)
qed

subsection \<open>\<open>parse_date\<close> by the number of parts\<close>

lemma split_on_nonempty: "split_on c s \<noteq> []"
  by (induction s) (auto split: list.splits)

lemma split_on_Cons:
  "split_on c s = p # ps \<Longrightarrow>
   c \<notin> set p \<and> ((ps = [] \<and> s = p) \<or> (\<exists>s'. s = p @ c # s' \<and> split_on c s' = ps))"
proof (induction s arbitrary: p ps)
  case Nil
  then show ?case by simp
next
  case (Cons x s)
  show ?case
  proof (cases "x = c")
    case True
    with Cons.prems show ?thesis by auto
  next
    case False
    with Cons.prems split_on_nonempty [of c s]
    obtain q qs where q: "split_on c s = q # qs" "p = x # q" "ps = qs"
      by (auto split: list.splits)
    from Cons.IH [OF q(1)] q(2,3) False show ?thesis by auto
  qed
qed

lemma dot_prefix_unique:
  "u @ c # r = p @ c # s \<Longrightarrow> c \<notin> set u \<Longrightarrow> c \<notin> set p \<Longrightarrow> u = p \<and> r = s"
proof (induction u arbitrary: p)
  case Nil
  then show ?case by (cases p) auto
next
  case (Cons a u)
  then show ?case by (cases p) auto
qed

lemma re_d_consume:
  assumes "(d, r) \<in> set (re_d s)"
  shows "\<exists>u. s = u @ r \<and> CHR ''.'' \<notin> set u \<and> (d, []) \<in> set (re_d u)"
proof -
  from assms consider
      a b where "s = a # b # r" "a = CHR ''3''" "b \<in> set ''01''" "d = 30 + digit_val b"
    | a b where "s = a # b # r" "a \<in> set ''12''" "is_digit b" "d = 10 * digit_val a + digit_val b"
    | a b where "s = a # b # r" "a = CHR ''0''" "is_digit19 b" "d = digit_val b"
    | a where "s = a # r" "is_digit19 a" "d = digit_val a"
    | a b where "s = a # b # r" "a = CHR '' ''" "is_digit19 b" "d = digit_val b"
    unfolding re_d_def by (auto split: list.splits if_splits)
  then show ?thesis
  proof cases
    case 1
    then show ?thesis by (intro exI [of _ "[a, b]"]) (auto simp: re_d_def)
  next
    case 2
    then show ?thesis
      by (intro exI [of _ "[a, b]"]) (auto simp: re_d_def is_digit_def)
  next
    case 3
    then show ?thesis
      by (intro exI [of _ "[a, b]"]) (auto simp: re_d_def is_digit19_def)
  next
    case 4
    then show ?thesis
      by (intro exI [of _ "[a]"]) (auto simp: re_d_def is_digit19_def)
  next
    case 5
    then show ?thesis
      by (intro exI [of _ "[a, b]"]) (auto simp: re_d_def is_digit19_def)
  qed
qed

lemma re_m_consume:
  assumes "(m, r) \<in> set (re_m s)"
  shows "\<exists>u. s = u @ r \<and> CHR ''.'' \<notin> set u \<and> (m, []) \<in> set (re_m u)"
proof -
  from assms consider
      a b where "s = a # b # r" "a = CHR ''1''" "b \<in> set ''012''" "m = 10 + digit_val b"
    | a b where "s = a # b # r" "a = CHR ''0''" "is_digit19 b" "m = digit_val b"
    | a where "s = a # r" "is_digit19 a" "m = digit_val a"
    unfolding re_m_def by (auto split: list.splits if_splits)
  then show ?thesis
  proof cases
    case 1
    then show ?thesis by (intro exI [of _ "[a, b]"]) (auto simp: re_m_def)
  next
    case 2
    then show ?thesis
      by (intro exI [of _ "[a, b]"]) (auto simp: re_m_def is_digit19_def)
  next
    case 3
    then show ?thesis
      by (intro exI [of _ "[a]"]) (auto simp: re_m_def is_digit19_def)
  qed
qed

lemma re_d_m_year_elem:
  "(d, m, y, rest) \<in> set (re_d_m_year re_year s) \<Longrightarrow>
   \<exists>r2 r4. (d, CHR ''.'' # r2) \<in> set (re_d s) \<and> (m, CHR ''.'' # r4) \<in> set (re_m r2)
        \<and> (y, rest) \<in> set (re_year r4)"
  unfolding re_d_m_year_def
  by (auto simp: lit_def split: list.splits if_splits)


lemma strptime_parts:
  assumes s: "s = p1 @ CHR ''.'' # p2 @ CHR ''.'' # r4"
    and p: "CHR ''.'' \<notin> set p1" "CHR ''.'' \<notin> set p2"
    and c: "(d, m, y, rest) \<in> set (re_d_m_year re_year s)"
  shows "(d, []) \<in> set (re_d p1) \<and> (m, []) \<in> set (re_m p2) \<and> (y, rest) \<in> set (re_year r4)"
proof -
  from re_d_m_year_elem [OF c] obtain r2 r4' where
    1: "(d, CHR ''.'' # r2) \<in> set (re_d s)" and 2: "(m, CHR ''.'' # r4') \<in> set (re_m r2)"
    and 3: "(y, rest) \<in> set (re_year r4')" by blast
  from re_d_consume [OF 1] obtain u where u: "s = u @ CHR ''.'' # r2" "CHR ''.'' \<notin> set u"
    "(d, []) \<in> set (re_d u)" by blast
  from u(1) s have "u @ CHR ''.'' # r2 = p1 @ CHR ''.'' # (p2 @ CHR ''.'' # r4)" by simp
  from dot_prefix_unique [OF this u(2) p(1)] have e1: "u = p1" "r2 = p2 @ CHR ''.'' # r4"
    by simp_all
  from re_m_consume [OF 2] obtain v where v: "r2 = v @ CHR ''.'' # r4'" "CHR ''.'' \<notin> set v"
    "(m, []) \<in> set (re_m v)" by blast
  from v(1) e1(2) have "v @ CHR ''.'' # r4' = p2 @ CHR ''.'' # r4" by simp
  from dot_prefix_unique [OF this v(2) p(2)] have e2: "v = p2" "r4' = r4" by simp_all
  from u(3) v(3) 3 e1 e2 show ?thesis by simp
qed

lemma split_on_three:
  assumes "split_on c s = [p1, p2, p3]"
  shows "s = p1 @ c # p2 @ c # p3 \<and> c \<notin> set p1 \<and> c \<notin> set p2 \<and> c \<notin> set p3"
proof -
  from split_on_Cons [OF assms] obtain s1 where 1: "c \<notin> set p1" "s = p1 @ c # s1"
    "split_on c s1 = [p2, p3]" by auto
  from split_on_Cons [OF 1(3)] obtain s2 where 2: "c \<notin> set p2" "s1 = p2 @ c # s2"
    "split_on c s2 = [p3]" by auto
  from split_on_Cons [OF 2(3)] have 3: "c \<notin> set p3" "s2 = p3"
    by (auto simp: split_on_nonempty)
  from 1 2 3 show ?thesis by simp
qed

lemma split_on_two:
  assumes "split_on c s = [p1, p2]"
  shows "s = p1 @ c # p2 \<and> c \<notin> set p1 \<and> c \<notin> set p2"
proof -
  from split_on_Cons [OF assms] obtain s1 where 1: "c \<notin> set p1" "s = p1 @ c # s1"
    "split_on c s1 = [p2]" by auto
  from split_on_Cons [OF 1(3)] have 2: "c \<notin> set p2" "s1 = p2"
    by (auto simp: split_on_nonempty)
  from 1 2 show ?thesis by simp
qed

lemma mk_datetime_fields:
  "mk_datetime y m d = Inr dt \<Longrightarrow> dt_year dt = y \<and> dt_month dt = m \<and> dt_day dt = d"
  by (auto simp: mk_datetime_def split: if_splits)

lemma strptime_dmy_parts:
  assumes "split_on CHR ''.'' s = [p1, p2, p3]" and "strptime_dmy s = Inr dt"
  shows "(dt_day dt, []) \<in> set (re_d p1) \<and> (dt_month dt, []) \<in> set (re_m p2)
       \<and> (\<exists>yy. (yy, []) \<in> set (re_y p3) \<and> dt_year dt = pivot_year yy)"
proof -
  from split_on_three [OF assms(1)] have s: "s = p1 @ CHR ''.'' # p2 @ CHR ''.'' # p3"
    and p: "CHR ''.'' \<notin> set p1" "CHR ''.'' \<notin> set p2" by simp_all
  from assms(2) obtain d m yy ms where
    l: "re_d_m_year re_y s = (d, m, yy, []) # ms" and k: "mk_datetime (pivot_year yy) m d = Inr dt"
    by (auto simp: strptime_dmy_def split: list.splits if_splits)
  from l have "(d, m, yy, []) \<in> set (re_d_m_year re_y s)" by simp
  from strptime_parts [OF s p this] mk_datetime_fields [OF k] show ?thesis by auto
qed

lemma strptime_dmY_parts:
  assumes "split_on CHR ''.'' s = [p1, p2]" and "strptime_dmY (s @ ''.'' @ yr) = Inr dt"
  shows "(dt_day dt, []) \<in> set (re_d p1) \<and> (dt_month dt, []) \<in> set (re_m p2)
       \<and> (dt_year dt, []) \<in> set (re_Y yr)"
proof -
  from split_on_two [OF assms(1)] have s: "s @ ''.'' @ yr = p1 @ CHR ''.'' # p2 @ CHR ''.'' # yr"
    and p: "CHR ''.'' \<notin> set p1" "CHR ''.'' \<notin> set p2" by simp_all
  from assms(2) obtain d m y ms where
    l: "re_d_m_year re_Y (s @ ''.'' @ yr) = (d, m, y, []) # ms"
    and k: "mk_datetime y m d = Inr dt"
    by (auto simp: strptime_dmY_def split: list.splits if_splits)
  from l have "(d, m, y, []) \<in> set (re_d_m_year re_Y (s @ ''.'' @ yr))" by simp
  from strptime_parts [OF s p this] mk_datetime_fields [OF k] show ?thesis by auto
qed

text \<open>
  Claim C7. A token of exactly three dot-separated parts is parsed as
  day.month.two-digit-year: on success the day is read from the first part, the month
  from the second, the year is the pivoted two-digit value of the third. A token of
  exactly two parts is parsed as day.month followed by the resolved year: the year is the
  four-digit value of the year string. Any other number of parts gives \<open>ValueError\<close>.
\<close>
theorem parse_date_by_number_of_parts:
  "(\<forall>p1 p2 p3. split_on CHR ''.'' s = [p1, p2, p3] \<longrightarrow>
      parse_date s yr = strptime_dmy s
      \<and> (\<forall>dt. parse_date s yr = Inr dt \<longrightarrow>
            (dt_day dt, []) \<in> set (re_d p1) \<and> (dt_month dt, []) \<in> set (re_m p2)
            \<and> (\<exists>yy. (yy, []) \<in> set (re_y p3) \<and> dt_year dt = pivot_year yy)))
   \<and> (\<forall>p1 p2. split_on CHR ''.'' s = [p1, p2] \<longrightarrow>
      parse_date s yr = strptime_dmY (s @ ''.'' @ yr)
      \<and> (\<forall>dt. parse_date s yr = Inr dt \<longrightarrow>
            (dt_day dt, []) \<in> set (re_d p1) \<and> (dt_month dt, []) \<in> set (re_m p2)
            \<and> (dt_year dt, []) \<in> set (re_Y yr)))
   \<and> (length (split_on CHR ''.'' s) \<noteq> 3 \<and> length (split_on CHR ''.'' s) \<noteq> 2 \<longrightarrow>
      parse_date s yr = Inl ValueError)"
proof -
  have a: "parse_date s yr = strptime_dmy s
      \<and> (\<forall>dt. parse_date s yr = Inr dt \<longrightarrow>
            (dt_day dt, []) \<in> set (re_d p1) \<and> (dt_month dt, []) \<in> set (re_m p2)
            \<and> (\<exists>yy. (yy, []) \<in> set (re_y p3) \<and> dt_year dt = pivot_year yy))"
    if h: "split_on CHR ''.'' s = [p1, p2, p3]" for p1 p2 p3
  proof -
    have "parse_date s yr = strptime_dmy s" by (simp add: parse_date_def h)
    then show ?thesis using strptime_dmy_parts [OF h] by simp
  qed
  have b: "parse_date s yr = strptime_dmY (s @ ''.'' @ yr)
      \<and> (\<forall>dt. parse_date s yr = Inr dt \<longrightarrow>
            (dt_day dt, []) \<in> set (re_d p1) \<and> (dt_month dt, []) \<in> set (re_m p2)
            \<and> (dt_year dt, []) \<in> set (re_Y yr))"
    if h: "split_on CHR ''.'' s = [p1, p2]" for p1 p2
  proof -
    have "parse_date s yr = strptime_dmY (s @ ''.'' @ yr)" by (simp add: parse_date_def h)
    then show ?thesis using strptime_dmY_parts [OF h] by simp
  qed
  have c: "parse_date s yr = Inl ValueError"
    if "length (split_on CHR ''.'' s) \<noteq> 3 \<and> length (split_on CHR ''.'' s) \<noteq> 2"
    using that by (simp add: parse_date_def Let_def)
  from a b c show ?thesis by blast
qed

text \<open>The three cases on concrete tokens.\<close>

theorem parse_date_by_number_of_parts_witness:
  "split_on CHR ''.'' ''03.03.99'' = [''03'', ''03'', ''99'']
   \<and> parse_date ''03.03.99'' ''2025'' = Inr \<lparr>dt_year = 1999, dt_month = 3, dt_day = 3\<rparr>
   \<and> (3, []) \<in> set (re_d ''03'')
   \<and> split_on CHR ''.'' ''07.03'' =  [''07'', ''03'']
   \<and> parse_date ''07.03'' ''2025'' = Inr \<lparr>dt_year = 2025, dt_month = 3, dt_day = 7\<rparr>
   \<and> (2025, []) \<in> set (re_Y ''2025'')
   \<and> length (split_on CHR ''.'' ''03.03.2025.'') \<noteq> 3 \<and> length (split_on CHR ''.'' ''03.03.2025.'') \<noteq> 2
   \<and> parse_date ''03.03.2025.'' ''2025'' = Inl ValueError"
proof -
  have 1: "split_on CHR ''.'' ''03.03.99'' = [''03'', ''03'', ''99'']" by simp
  have 2: "parse_date ''03.03.99'' ''2025'' = Inr \<lparr>dt_year = 1999, dt_month = 3, dt_day = 3\<rparr>"
    by (simp add: date_eval)
  have 3: "split_on CHR ''.'' ''07.03'' =  [''07'', ''03'']" by simp
  have 4: "parse_date ''07.03'' ''2025'' = Inr \<lparr>dt_year = 2025, dt_month = 3, dt_day = 7\<rparr>"
    by (simp add: date_eval)
  have 5: "length (split_on CHR ''.'' ''03.03.2025.'') \<noteq> 3 \<and> length (split_on CHR ''.'' ''03.03.2025.'') \<noteq> 2"
    by simp
  from parse_date_by_number_of_parts [of "''03.03.99''" "''2025''"] 1 2
  have a: "(3, []) \<in> set (re_d ''03'')" by fastforce
  from parse_date_by_number_of_parts [of "''07.03''" "''2025''"] 3 4
  have b: "(2025, []) \<in> set (re_Y ''2025'')" by fastforce
  from parse_date_by_number_of_parts [of "''03.03.2025.''" "''2025''"] 5
  have c: "parse_date ''03.03.2025.'' ''2025'' = Inl ValueError" by blast
  from 1 2 3 4 5 a b c show ?thesis by simp
qed

end
